theory Spec2Isabelle
  imports Complex_Main "HOL-Library.Multiset"
begin

section \<open>Exceptions\<close>

text \<open>
  One type for every exception the modelled code raises: the client exceptions of
  \<^verbatim>\<open>exceptions.py\<close>, \<^verbatim>\<open>requests.RequestException\<close>, and the built-in exceptions of
  Python that the modelled expressions can raise.
\<close>

datatype error =
    EIAAuthenticationError
  | EIARateLimitError
  | EIADataNotFoundError
  | EIARequestError
  | RequestException
  | ValueError
  | TypeError
  | KeyError
  | OverflowError
  | ZeroDivisionError
  | AttributeError

section \<open>Configuration: \<^verbatim>\<open>EIAConfig\<close>\<close>

record config =
  api_key :: string
  base_url :: string
  timeout :: int
  max_retries :: int
  page_size :: int

text \<open>The dataclass defaults: \<^verbatim>\<open>EIAConfig(api_key=key)\<close>.\<close>

definition default_config :: "string \<Rightarrow> config" where
  "default_config key =
     \<lparr>api_key = key, base_url = ''https://api.eia.gov/v2'', timeout = 30,
      max_retries = 3, page_size = 5000\<rparr>"

section \<open>Retry and backoff: \<^verbatim>\<open>EIAClient._handle_response\<close> and \<^verbatim>\<open>EIAClient._request\<close>\<close>

text \<open>
  The exceptions that can travel through the \<^verbatim>\<open>try\<close> block of \<^verbatim>\<open>_request\<close>: the four
  client exceptions of \<^verbatim>\<open>exceptions.py\<close> that \<^verbatim>\<open>_handle_response\<close> raises, and
  \<^verbatim>\<open>requests.RequestException\<close>, raised by the transport (time-out, connection reset) and,
  with the pinned \<^verbatim>\<open>requests>=2.28\<close>, by \<^verbatim>\<open>response.json()\<close> on a body that is not JSON.
  None of the client exceptions derives from another one or from \<^verbatim>\<open>RequestException\<close>.
\<close>

text \<open>A response carries its status code and, when the body is JSON, the parsed body.\<close>

record 'b response =
  status_code :: int
  json :: "'b option"

text \<open>What one call of \<^verbatim>\<open>session.request\<close> does: it returns a response or raises.\<close>

datatype 'b attempt = Sent "'b response" | Failed

definition handle_response :: "'b response \<Rightarrow> error + 'b" where
  "handle_response r =
     (if status_code r = 401 then Inl EIAAuthenticationError
      else if status_code r = 429 then Inl EIARateLimitError
      else if status_code r = 404 then Inl EIADataNotFoundError
      else if status_code r \<ge> 400 then Inl EIARequestError
      else (case json r of None \<Rightarrow> Inl RequestException | Some b \<Rightarrow> Inr b))"

text \<open>The body of the \<^verbatim>\<open>try\<close> block: the call, then \<^verbatim>\<open>_handle_response\<close>.\<close>

definition try_attempt :: "'b attempt \<Rightarrow> error + 'b" where
  "try_attempt a = (case a of Failed \<Rightarrow> Inl RequestException | Sent r \<Rightarrow> handle_response r)"

text \<open>
  What the loop does to the outside world, in order: it issues the call of attempt \<open>i\<close>, and it
  sleeps for a number of seconds.
\<close>

datatype event = Attempt nat | Sleep nat

text \<open>
  The loop \<^verbatim>\<open>for attempt in range(self._config.max_retries)\<close>, entered at index \<open>attempt\<close>.
  The transport is
  the function \<open>send\<close> from the attempt index to what the call of that attempt does. The result
  is the trace of events and the outcome: an exception, or the returned value, which is
  \<open>None\<close> when the loop runs off its end (only when \<open>max_retries cfg \<le> 0\<close>).
\<close>

function request_from ::
  "config \<Rightarrow> (nat \<Rightarrow> 'b attempt) \<Rightarrow> nat \<Rightarrow> event list \<times> (error + 'b option)" where
  "request_from cfg send attempt =
     (if int attempt < max_retries cfg then
        (case try_attempt (send attempt) of
           Inr v \<Rightarrow> ([Attempt attempt], Inr (Some v))
         | Inl EIARateLimitError \<Rightarrow>
             if int attempt < max_retries cfg - 1 then
               (case request_from cfg send (Suc attempt) of
                  (tr, res) \<Rightarrow> (Attempt attempt # Sleep (2 ^ attempt) # tr, res))
             else ([Attempt attempt], Inl EIARateLimitError)
         | Inl RequestException \<Rightarrow>
             if int attempt < max_retries cfg - 1 then
               (case request_from cfg send (Suc attempt) of
                  (tr, res) \<Rightarrow> (Attempt attempt # Sleep 1 # tr, res))
             else ([Attempt attempt], Inl EIARequestError)
         | Inl e \<Rightarrow> ([Attempt attempt], Inl e))
      else ([], Inr None))"
  by pat_completeness auto
termination
  by (relation "measure (\<lambda>(cfg, s, a). nat (max_retries cfg - int a))") auto

declare request_from.simps [simp del]

definition request :: "config \<Rightarrow> (nat \<Rightarrow> 'b attempt) \<Rightarrow> event list \<times> (error + 'b option)" where
  "request cfg send = request_from cfg send 0"

text \<open>The seconds slept in a trace.\<close>

fun total_delay :: "event list \<Rightarrow> nat" where
  "total_delay [] = 0"
| "total_delay (Sleep t # es) = t + total_delay es"
| "total_delay (Attempt i # es) = total_delay es"

text \<open>
  The transport of the scenario "rate limited on the first two attempts, success on the third".
\<close>

definition rate_limited_twice :: "'b \<Rightarrow> nat \<Rightarrow> 'b attempt" where
  "rate_limited_twice body k =
     (if k < 2 then Sent \<lparr>status_code = 429, json = None\<rparr>
      else Sent \<lparr>status_code = 200, json = Some body\<rparr>)"

text \<open>A transport that fails twice at the transport level and then answers 401.\<close>

definition unauthorized_third :: "nat \<Rightarrow> 'b attempt" where
  "unauthorized_third k =
     (if k < 2 then Failed else Sent \<lparr>status_code = 401, json = None\<rparr>)"


section \<open>Query builder: \<^verbatim>\<open>EIAClient.get_data\<close>\<close>

text \<open>
  The query pairs are a list of tuples, so that a key can repeat. A value is a string or, for
  \<^verbatim>\<open>length\<close> and \<^verbatim>\<open>offset\<close>, an integer.
\<close>

datatype pval = PStr string | PInt int

type_synonym param = "string \<times> pval"

text \<open>Python's \<^verbatim>\<open>str\<close> of a non-negative integer, for the index in \<^verbatim>\<open>f"sort[{i}][column]"\<close>.\<close>

function str_nat :: "nat \<Rightarrow> string" where
  "str_nat n =
     (if n < 10 then [''0123456789'' ! n]
      else str_nat (n div 10) @ [''0123456789'' ! (n mod 10)])"
  by pat_completeness auto
termination
  by (relation "measure id") auto

declare str_nat.simps [simp del]

text \<open>
  The keyword arguments of \<^verbatim>\<open>get_data\<close> after the route. A dictionary of facets is the list
  of its items in insertion order; a sort entry is a dictionary from strings to strings.
\<close>

record query =
  q_data_columns :: "string list option"
  q_facets :: "(string \<times> string list) list option"
  q_frequency :: "string option"
  q_start :: "string option"
  q_end :: "string option"
  q_sort :: "(string \<rightharpoonup> string) list option"
  q_length :: "int option"
  q_offset :: int

text \<open>The defaults of the keyword arguments.\<close>

definition no_filters :: query where
  "no_filters = \<lparr>q_data_columns = None, q_facets = None, q_frequency = None, q_start = None,
     q_end = None, q_sort = None, q_length = None, q_offset = 0\<rparr>"

text \<open>
  Each \<^verbatim>\<open>if\<close> block of \<^verbatim>\<open>get_data\<close> appends to \<^verbatim>\<open>params\<close>; the blocks run in the order of
  the source. A block is skipped when its argument is falsy: \<^verbatim>\<open>None\<close>, an empty list,
  dictionary or string, or the integer 0.
\<close>

definition add_data_columns :: "string list option \<Rightarrow> param list \<Rightarrow> param list" where
  "add_data_columns data_columns params =
     (case data_columns of
        None \<Rightarrow> params
      | Some cols \<Rightarrow> fold (\<lambda>col ps. ps @ [(''data[]'', PStr col)]) cols params)"

definition add_facets :: "(string \<times> string list) list option \<Rightarrow> param list \<Rightarrow> param list" where
  "add_facets facets params =
     (case facets of
        None \<Rightarrow> params
      | Some fs \<Rightarrow>
          fold (\<lambda>(facet_name, values) ps.
                  fold (\<lambda>value ps'. ps' @ [(''facets['' @ facet_name @ ''][]'', PStr value)])
                    values ps)
            fs params)"

definition add_scalar :: "string \<Rightarrow> string option \<Rightarrow> param list \<Rightarrow> param list" where
  "add_scalar key v params =
     (case v of
        None \<Rightarrow> params
      | Some s \<Rightarrow> if s = [] then params else params @ [(key, PStr s)])"

text \<open>
  \<^verbatim>\<open>for i, s in enumerate(sort)\<close>: \<^verbatim>\<open>s["column"]\<close> raises \<^verbatim>\<open>KeyError\<close> when the key is
  missing, \<^verbatim>\<open>s.get("direction", "desc")\<close> does not.
\<close>

fun add_sort_from :: "nat \<Rightarrow> (string \<rightharpoonup> string) list \<Rightarrow> param list \<Rightarrow> error + param list" where
  "add_sort_from i [] params = Inr params"
| "add_sort_from i (s # ss) params =
     (case s ''column'' of
        None \<Rightarrow> Inl KeyError
      | Some c \<Rightarrow>
          add_sort_from (Suc i) ss
            (params @ [(''sort['' @ str_nat i @ ''][column]'', PStr c),
                       (''sort['' @ str_nat i @ ''][direction]'',
                        PStr (case s ''direction'' of None \<Rightarrow> ''desc'' | Some d \<Rightarrow> d))]))"

definition add_sort :: "(string \<rightharpoonup> string) list option \<Rightarrow> param list \<Rightarrow> error + param list" where
  "add_sort sort_spec params =
     (case sort_spec of None \<Rightarrow> Inr params | Some ss \<Rightarrow> add_sort_from 0 ss params)"

definition add_length :: "config \<Rightarrow> int option \<Rightarrow> param list \<Rightarrow> param list" where
  "add_length cfg len params =
     (case len of
        None \<Rightarrow> params
      | Some l \<Rightarrow> if l = 0 then params else params @ [(''length'', PInt (min l (page_size cfg)))])"

definition add_offset :: "int \<Rightarrow> param list \<Rightarrow> param list" where
  "add_offset offset params = (if offset = 0 then params else params @ [(''offset'', PInt offset)])"

definition get_data_params :: "config \<Rightarrow> query \<Rightarrow> error + param list" where
  "get_data_params cfg q =
     (let params = [(''api_key'', PStr (api_key cfg))];
          params = add_data_columns (q_data_columns q) params;
          params = add_facets (q_facets q) params;
          params = add_scalar ''frequency'' (q_frequency q) params;
          params = add_scalar ''start'' (q_start q) params;
          params = add_scalar ''end'' (q_end q) params
      in case add_sort (q_sort q) params of
           Inl e \<Rightarrow> Inl e
         | Inr params \<Rightarrow> Inr (add_offset (q_offset q) (add_length cfg (q_length q) params)))"

text \<open>The classes of keys that the ordering claims speak about.\<close>

definition is_facet_key :: "string \<Rightarrow> bool" where
  "is_facet_key k = (take 7 k = ''facets['')"

definition is_sort_key :: "string \<Rightarrow> bool" where
  "is_sort_key k = (take 5 k = ''sort['')"

definition is_range_key :: "string \<Rightarrow> bool" where
  "is_range_key k = (k = ''frequency'' \<or> k = ''start'' \<or> k = ''end'')"

definition is_page_key :: "string \<Rightarrow> bool" where
  "is_page_key k = (k = ''length'' \<or> k = ''offset'')"

definition is_scalar_key :: "string \<Rightarrow> bool" where
  "is_scalar_key k = (is_range_key k \<or> is_page_key k)"

text \<open>
  \<open>all_before A B params\<close>: every pair whose key is in class \<open>A\<close> comes before every pair
  whose key is in class \<open>B\<close>, that is, no \<open>A\<close> pair follows a \<open>B\<close> pair.
\<close>

fun all_before :: "(string \<Rightarrow> bool) \<Rightarrow> (string \<Rightarrow> bool) \<Rightarrow> param list \<Rightarrow> bool" where
  "all_before A B [] = True"
| "all_before A B (p # ps) =
     ((B (fst p) \<longrightarrow> \<not> list_ex (\<lambda>q. A (fst q)) ps) \<and> all_before A B ps)"

text \<open>The values emitted under a key, in order.\<close>

definition values_of :: "string \<Rightarrow> param list \<Rightarrow> pval list" where
  "values_of key params = map snd (filter (\<lambda>p. fst p = key) params)"

text \<open>A query with a frequency and one sort entry, and nothing else.\<close>

definition monthly_sorted :: query where
  "monthly_sorted =
     no_filters\<lparr>q_frequency := Some ''monthly'', q_sort := Some [[''column'' \<mapsto> ''period'']]\<rparr>"

text \<open>A query with every kind of argument.\<close>

definition full_query :: query where
  "full_query =
     \<lparr>q_data_columns = Some [''value''],
      q_facets = Some [(''stateid'', [''CA'', ''TX'']), (''sector'', [''1''])],
      q_frequency = Some ''monthly'', q_start = Some ''2020-01'', q_end = Some ''2020-12'',
      q_sort = Some [[''column'' \<mapsto> ''period''],
                     [''column'' \<mapsto> ''value'', ''direction'' \<mapsto> ''asc'']],
      q_length = Some 7000, q_offset = 10\<rparr>"


text \<open>The pairs of \<open>full_query\<close> for the key \<^verbatim>\<open>k\<close>, with the emitted length \<open>len\<close>.\<close>

definition full_query_pairs :: "int \<Rightarrow> param list" where
  "full_query_pairs len =
     [(''api_key'', PStr ''k''), (''data[]'', PStr ''value''),
      (''facets[stateid][]'', PStr ''CA''), (''facets[stateid][]'', PStr ''TX''),
      (''facets[sector][]'', PStr ''1''), (''frequency'', PStr ''monthly''),
      (''start'', PStr ''2020-01''), (''end'', PStr ''2020-12''),
      (''sort[0][column]'', PStr ''period''), (''sort[0][direction]'', PStr ''desc''),
      (''sort[1][column]'', PStr ''value''), (''sort[1][direction]'', PStr ''asc''),
      (''length'', PInt len), (''offset'', PInt 10)]"

section \<open>Paginated fetcher: \<^verbatim>\<open>paginate\<close> and \<^verbatim>\<open>EIAClient.get_all_data\<close>\<close>

text \<open>
  A raw response is the dictionary \<^verbatim>\<open>{"response": {"data": [...], "total": n}}\<close>; a field is
  \<open>None\<close> when its key is missing, where \<^verbatim>\<open>.get("data", [])\<close> and \<^verbatim>\<open>.get("total", 0)\<close>
  take their defaults.
\<close>

record 'a raw_response =
  r_data :: "'a list option"
  r_total :: "int option"

text \<open>\<^verbatim>\<open>PaginatedResponse\<close> of \<^verbatim>\<open>models/base.py\<close> and its property \<^verbatim>\<open>has_more\<close>.\<close>

record 'a paginated_response =
  pr_data :: "'a list"
  pr_total :: int
  pr_offset :: int
  pr_page_size :: int

definition has_more :: "'a paginated_response \<Rightarrow> bool" where
  "has_more r = (pr_offset r + int (length (pr_data r)) < pr_total r)"

text \<open>
  What \<^verbatim>\<open>fetch_func\<close> returns: an object with the attribute \<^verbatim>\<open>data\<close>, or a raw dictionary.
\<close>

datatype 'a fetched = Paginated "'a paginated_response" | Raw "'a raw_response"

text \<open>
  The inner loop \<^verbatim>\<open>for item in data\<close> of \<^verbatim>\<open>paginate\<close> and of \<^verbatim>\<open>get_all_data\<close>: the items
  yielded, the new \<^verbatim>\<open>total_fetched\<close>, and whether the generator returned. The test
  \<^verbatim>\<open>max_records and total_fetched >= max_records\<close> is false for \<^verbatim>\<open>None\<close> and for 0.
\<close>

fun emit :: "'a list \<Rightarrow> int \<Rightarrow> int option \<Rightarrow> 'a list \<times> int \<times> bool" where
  "emit [] total_fetched max_records = ([], total_fetched, False)"
| "emit (item # items) total_fetched max_records =
     (let total_fetched = total_fetched + 1 in
      if (case max_records of None \<Rightarrow> False | Some m \<Rightarrow> m \<noteq> 0 \<and> total_fetched \<ge> m)
      then ([item], total_fetched, True)
      else (case emit items total_fetched max_records of
              (ys, t, returned) \<Rightarrow> (item # ys, t, returned)))"

text \<open>The two branches of \<^verbatim>\<open>hasattr(response, "data")\<close>: the page and \<^verbatim>\<open>has_more\<close>.\<close>

definition page_of :: "'a fetched \<Rightarrow> int \<Rightarrow> 'a list \<times> bool" where
  "page_of response offset =
     (case response of
        Paginated r \<Rightarrow> (pr_data r, has_more r)
      | Raw d \<Rightarrow>
          (let data = (case r_data d of None \<Rightarrow> [] | Some xs \<Rightarrow> xs);
               total = (case r_total d of None \<Rightarrow> 0 | Some t \<Rightarrow> t)
           in (data, offset + int (length data) < total)))"

text \<open>
  The loop \<^verbatim>\<open>while True\<close> of \<^verbatim>\<open>paginate\<close>, with the loop variables \<^verbatim>\<open>offset\<close> and
  \<^verbatim>\<open>total_fetched\<close>, the items yielded so far and the calls of \<^verbatim>\<open>fetch_func\<close> made so far
  (offset and limit). The loop need not end for every \<^verbatim>\<open>fetch_func\<close>: the result is \<open>None\<close>
  when it does not. The result describes a generator that is consumed to its end.
\<close>

partial_function (option) paginate_loop ::
  "(int \<Rightarrow> int \<Rightarrow> 'a fetched) \<Rightarrow> int \<Rightarrow> int option \<Rightarrow> int \<Rightarrow> int \<Rightarrow> 'a list \<Rightarrow> (int \<times> int) list
     \<Rightarrow> ('a list \<times> (int \<times> int) list) option" where
  "paginate_loop fetch_func psize max_records offset total_fetched yielded calls =
     (let response = fetch_func offset psize;
          calls = calls @ [(offset, psize)]
      in case page_of response offset of (data, hm) \<Rightarrow>
        if data = [] then Some (yielded, calls)
        else (case emit data total_fetched max_records of
                (ys, total_fetched, returned) \<Rightarrow>
                  if returned then Some (yielded @ ys, calls)
                  else if \<not> hm \<or> int (length data) < psize then Some (yielded @ ys, calls)
                  else paginate_loop fetch_func psize max_records
                         (offset + int (length data)) total_fetched (yielded @ ys) calls))"

declare paginate_loop.simps [code]

definition paginate ::
  "(int \<Rightarrow> int \<Rightarrow> 'a fetched) \<Rightarrow> int \<Rightarrow> int option \<Rightarrow> ('a list \<times> (int \<times> int) list) option" where
  "paginate fetch_func psize max_records = paginate_loop fetch_func psize max_records 0 0 [] []"

text \<open>
  \<^verbatim>\<open>get_data\<close>: the pairs are built and sent with \<^verbatim>\<open>_request\<close>; \<open>server\<close> is the remote end,
  what each attempt of a request with the given pairs does.
\<close>

definition get_data ::
  "config \<Rightarrow> (param list \<Rightarrow> nat \<Rightarrow> 'b attempt) \<Rightarrow> query \<Rightarrow> error + 'b option" where
  "get_data cfg server q =
     (case get_data_params cfg q of
        Inl e \<Rightarrow> Inl e
      | Inr params \<Rightarrow> snd (request cfg (server params)))"

text \<open>
  The loop of \<^verbatim>\<open>get_all_data\<close>: it asks \<^verbatim>\<open>get_data\<close> for pages of \<^verbatim>\<open>page_size\<close> records. The
  result holds the records yielded, the offsets requested, and the exception that ended the
  generator, if any (\<^verbatim>\<open>AttributeError\<close> when \<^verbatim>\<open>_request\<close> returned \<^verbatim>\<open>None\<close>).
\<close>

partial_function (option) get_all_data_loop ::
  "config \<Rightarrow> (param list \<Rightarrow> nat \<Rightarrow> 'a raw_response attempt) \<Rightarrow> query \<Rightarrow> int option
     \<Rightarrow> int \<Rightarrow> int \<Rightarrow> 'a list \<Rightarrow> int list \<Rightarrow> ('a list \<times> int list \<times> error option) option" where
  "get_all_data_loop cfg server q max_records offset total_fetched yielded calls =
     (let calls = calls @ [offset] in
      case get_data cfg server (q\<lparr>q_length := Some (page_size cfg), q_offset := offset\<rparr>) of
        Inl e \<Rightarrow> Some (yielded, calls, Some e)
      | Inr None \<Rightarrow> Some (yielded, calls, Some AttributeError)
      | Inr (Some response) \<Rightarrow>
          (let data = (case r_data response of None \<Rightarrow> [] | Some xs \<Rightarrow> xs) in
           if data = [] then Some (yielded, calls, None)
           else (case emit data total_fetched max_records of
                   (ys, total_fetched, returned) \<Rightarrow>
                     if returned then Some (yielded @ ys, calls, None)
                     else if int (length data) < page_size cfg then Some (yielded @ ys, calls, None)
                     else get_all_data_loop cfg server q max_records
                            (offset + int (length data)) total_fetched (yielded @ ys) calls)))"

declare get_all_data_loop.simps [code]

definition get_all_data ::
  "config \<Rightarrow> (param list \<Rightarrow> nat \<Rightarrow> 'a raw_response attempt) \<Rightarrow> query \<Rightarrow> int option
     \<Rightarrow> ('a list \<times> int list \<times> error option) option" where
  "get_all_data cfg server q max_records = get_all_data_loop cfg server q max_records 0 0 [] []"

text \<open>
  Modelled from the spec: the synthetic multi-page record source of the testable properties
  (a finite list of records served page by page with the total count); the repository's
  tests are not part of the sources. \<open>slice\<close> is \<^verbatim>\<open>records[offset:offset + limit]\<close> for a
  non-negative offset and limit.
\<close>

definition slice :: "'a list \<Rightarrow> int \<Rightarrow> int \<Rightarrow> 'a list" where
  "slice records offset limit = take (nat limit) (drop (nat offset) records)"

definition mock_fetch :: "'a list \<Rightarrow> int \<Rightarrow> int \<Rightarrow> 'a fetched" where
  "mock_fetch records offset limit =
     Raw \<lparr>r_data = Some (slice records offset limit), r_total = Some (int (length records))\<rparr>"

definition mock_fetch_paginated :: "'a list \<Rightarrow> int \<Rightarrow> int \<Rightarrow> 'a fetched" where
  "mock_fetch_paginated records offset limit =
     Paginated \<lparr>pr_data = slice records offset limit, pr_total = int (length records),
                pr_offset = offset, pr_page_size = int (length (slice records offset limit))\<rparr>"

text \<open>
  Modelled from the spec: the same source behind \<^verbatim>\<open>get_data\<close>, a remote end that reads
  \<^verbatim>\<open>offset\<close> (default 0) and \<^verbatim>\<open>length\<close> (default 5000) from the pairs and answers 200.
\<close>

definition mock_server :: "'a list \<Rightarrow> param list \<Rightarrow> nat \<Rightarrow> 'a raw_response attempt" where
  "mock_server records params attempt =
     (let offset = (case values_of ''offset'' params of PInt off # _ \<Rightarrow> off | _ \<Rightarrow> 0);
          limit = (case values_of ''length'' params of PInt len # _ \<Rightarrow> len | _ \<Rightarrow> 5000)
      in Sent \<lparr>status_code = 200,
               json = Some \<lparr>r_data = Some (slice records offset limit),
                             r_total = Some (int (length records))\<rparr>\<rparr>)"

text \<open>\<open>min(total available, max_records)\<close>, with \<^verbatim>\<open>None\<close> for no cap.\<close>

definition record_cap :: "'a list \<Rightarrow> int option \<Rightarrow> nat" where
  "record_cap records max_records =
     (case max_records of None \<Rightarrow> length records | Some m \<Rightarrow> min (length records) (nat m))"

text \<open>The records that a consumer should receive under the cap.\<close>

definition expected :: "'a list \<Rightarrow> int option \<Rightarrow> 'a list" where
  "expected records max_records =
     (case max_records of None \<Rightarrow> records | Some m \<Rightarrow> take (nat m) records)"

text \<open>The source of the scenario: seven records.\<close>

definition seven :: "nat list" where
  "seven = [1, 2, 3, 4, 5, 6, 7]"


section \<open>Record mapper: \<^verbatim>\<open>FuelTypeData.from_dict\<close> and \<^verbatim>\<open>GeneratorCapacity.from_dict\<close>\<close>

text \<open>
  A Python float is a real number, an infinity or not-a-number. The finite values are
  modelled as exact reals: rounding, and the overflow of a decimal literal to an infinity, are
  not part of the model.
\<close>

datatype pyfloat = Finite real | PosInf | NegInf | NaN

text \<open>
  The loosely-typed values of a raw record, as \<^verbatim>\<open>json\<close> decodes them. A nested dictionary is
  the list of its items.
\<close>

datatype jval =
    JNull
  | JBool bool
  | JInt int
  | JFloat pyfloat
  | JStr string
  | JList "jval list"
  | JObj "(string \<times> jval) list"

text \<open>A raw record: a dictionary with string keys.\<close>

type_synonym raw = "string \<rightharpoonup> jval"

text \<open>Python's truth value of an object.\<close>

fun truthy :: "jval \<Rightarrow> bool" where
  "truthy JNull = False"
| "truthy (JBool b) = b"
| "truthy (JInt n) = (n \<noteq> 0)"
| "truthy (JFloat f) = (f \<noteq> Finite 0)"
| "truthy (JStr s) = (s \<noteq> [])"
| "truthy (JList xs) = (xs \<noteq> [])"
| "truthy (JObj kvs) = (kvs \<noteq> [])"

text \<open>\<^verbatim>\<open>data.get(key, default)\<close> and \<^verbatim>\<open>data.get(key)\<close>.\<close>

definition get_default :: "raw \<Rightarrow> string \<Rightarrow> jval \<Rightarrow> jval" where
  "get_default data key dflt = (case data key of None \<Rightarrow> dflt | Some v \<Rightarrow> v)"

definition get_or_none :: "raw \<Rightarrow> string \<Rightarrow> jval" where
  "get_or_none data key = get_default data key JNull"

text \<open>\<^verbatim>\<open>data[key]\<close>.\<close>

definition getitem :: "raw \<Rightarrow> string \<Rightarrow> error + jval" where
  "getitem data key = (case data key of None \<Rightarrow> Inl KeyError | Some v \<Rightarrow> Inr v)"

text \<open>\<^verbatim>\<open>x or y\<close>.\<close>

definition py_or :: "jval \<Rightarrow> jval \<Rightarrow> jval" where
  "py_or x y = (if truthy x then x else y)"

subsection \<open>The built-in conversions \<^verbatim>\<open>float\<close> and \<^verbatim>\<open>int\<close>\<close>

text \<open>
  Strings are modelled over ASCII. White space is what \<^verbatim>\<open>str.strip\<close> removes: the characters
  9 to 13, 28 to 31 and the space.
\<close>

definition is_space :: "char \<Rightarrow> bool" where
  "is_space c = (let n = (of_char c :: nat) in (9 \<le> n \<and> n \<le> 13) \<or> (28 \<le> n \<and> n \<le> 32))"

definition strip :: "string \<Rightarrow> string" where
  "strip s = rev (dropWhile is_space (rev (dropWhile is_space s)))"

definition is_digit :: "char \<Rightarrow> bool" where
  "is_digit c = (let n = (of_char c :: nat) in 48 \<le> n \<and> n \<le> 57)"

definition digit_val :: "char \<Rightarrow> nat" where
  "digit_val c = of_char c - 48"

definition to_lower :: "char \<Rightarrow> char" where
  "to_lower c = (let n = (of_char c :: nat) in if 65 \<le> n \<and> n \<le> 90 then char_of (n + 32) else c)"

text \<open>
  The rest of a \<open>digitpart\<close> of the grammar, \<^verbatim>\<open>digit (["_"] digit)*\<close>, after its first digits:
  the value read so far, the number of digits read so far, and the input. An underscore
  belongs to the number only between two digits.
\<close>

fun digits_more :: "nat \<Rightarrow> nat \<Rightarrow> string \<Rightarrow> nat \<times> nat \<times> string" where
  "digits_more v k [] = (v, k, [])"
| "digits_more v k [c] =
     (if is_digit c then (10 * v + digit_val c, Suc k, []) else (v, k, [c]))"
| "digits_more v k (c # d # ds) =
     (if is_digit c then digits_more (10 * v + digit_val c) (Suc k) (d # ds)
      else if c = CHR ''_'' \<and> is_digit d then digits_more (10 * v + digit_val d) (Suc k) ds
      else (v, k, c # d # ds))"

definition digitpart :: "string \<Rightarrow> (nat \<times> nat \<times> string) option" where
  "digitpart s =
     (case s of
        [] \<Rightarrow> None
      | c # cs \<Rightarrow> if is_digit c then Some (digits_more (digit_val c) 1 cs) else None)"

definition sign :: "string \<Rightarrow> bool \<times> string" where
  "sign s =
     (case s of
        [] \<Rightarrow> (False, s)
      | c # cs \<Rightarrow> if c = CHR ''-'' then (True, cs) else if c = CHR ''+'' then (False, cs)
                 else (False, s))"

text \<open>The exponent \<^verbatim>\<open>("e" | "E") ["+" | "-"] digitpart\<close>, or the end of the literal.\<close>

definition exponent :: "real \<Rightarrow> string \<Rightarrow> real option" where
  "exponent m s =
     (case s of
        [] \<Rightarrow> Some m
      | c # cs \<Rightarrow>
          if c = CHR ''e'' \<or> c = CHR ''E'' then
            (case sign cs of (neg, t) \<Rightarrow>
               (case digitpart t of
                  Some (ev, ek, []) \<Rightarrow> Some (if neg then m / 10 ^ ev else m * 10 ^ ev)
                | _ \<Rightarrow> None))
          else None)"

text \<open>
  The unsigned literal \<^verbatim>\<open>[digitpart] "." digitpart | digitpart ["."]\<close> with its optional
  exponent, up to the end of the string.
\<close>

definition float_literal :: "string \<Rightarrow> real option" where
  "float_literal s =
     (case digitpart s of
        Some (v, k, r) \<Rightarrow>
          (case r of
             [] \<Rightarrow> Some (real v)
           | c # t \<Rightarrow>
               if c = CHR ''.'' then
                 (case digitpart t of
                    Some (fv, fk, r') \<Rightarrow> exponent (real v + real fv / 10 ^ fk) r'
                  | None \<Rightarrow> exponent (real v) t)
               else exponent (real v) r)
      | None \<Rightarrow>
          (case s of
             [] \<Rightarrow> None
           | c # t \<Rightarrow>
               if c = CHR ''.'' then
                 (case digitpart t of
                    Some (fv, fk, r') \<Rightarrow> exponent (real fv / 10 ^ fk) r'
                  | None \<Rightarrow> None)
               else None))"

text \<open>\<^verbatim>\<open>float(s)\<close> for a string.\<close>

definition float_of_str :: "string \<Rightarrow> error + pyfloat" where
  "float_of_str s =
     (case sign (strip s) of (neg, u) \<Rightarrow>
        (let l = map to_lower u in
         if l = ''inf'' \<or> l = ''infinity'' then Inr (if neg then NegInf else PosInf)
         else if l = ''nan'' then Inr NaN
         else (case float_literal u of
                 None \<Rightarrow> Inl ValueError
               | Some r \<Rightarrow> Inr (Finite (if neg then - r else r)))))"

text \<open>
  \<^verbatim>\<open>float(x)\<close>. An integer beyond the range of a double raises \<^verbatim>\<open>OverflowError\<close>: the
  largest double is \<open>2 ^ 1024 - 2 ^ 971\<close> and conversion rounds to nearest.
\<close>

definition py_float :: "jval \<Rightarrow> error + pyfloat" where
  "py_float x =
     (case x of
        JNull \<Rightarrow> Inl TypeError
      | JBool b \<Rightarrow> Inr (Finite (if b then 1 else 0))
      | JInt n \<Rightarrow> if \<bar>n\<bar> \<ge> 2 ^ 1024 - 2 ^ 970 then Inl OverflowError
                  else Inr (Finite (real_of_int n))
      | JFloat f \<Rightarrow> Inr f
      | JStr s \<Rightarrow> float_of_str s
      | JList xs \<Rightarrow> Inl TypeError
      | JObj kvs \<Rightarrow> Inl TypeError)"

text \<open>\<^verbatim>\<open>int(s)\<close> for a string, in base 10.\<close>

definition int_of_str :: "string \<Rightarrow> error + int" where
  "int_of_str s =
     (case sign (strip s) of (neg, u) \<Rightarrow>
        (case digitpart u of
           Some (v, k, []) \<Rightarrow> Inr (if neg then - int v else int v)
         | _ \<Rightarrow> Inl ValueError))"

text \<open>Truncation toward zero, for \<^verbatim>\<open>int\<close> of a float.\<close>

definition trunc :: "real \<Rightarrow> int" where
  "trunc r = (if r \<ge> 0 then \<lfloor>r\<rfloor> else \<lceil>r\<rceil>)"

definition py_int :: "jval \<Rightarrow> error + int" where
  "py_int x =
     (case x of
        JNull \<Rightarrow> Inl TypeError
      | JBool b \<Rightarrow> Inr (if b then 1 else 0)
      | JInt n \<Rightarrow> Inr n
      | JFloat f \<Rightarrow>
          (case f of Finite r \<Rightarrow> Inr (trunc r) | NaN \<Rightarrow> Inl ValueError | _ \<Rightarrow> Inl OverflowError)
      | JStr s \<Rightarrow> int_of_str s
      | JList xs \<Rightarrow> Inl TypeError
      | JObj kvs \<Rightarrow> Inl TypeError)"

text \<open>
  \<^verbatim>\<open>x[:4]\<close>: a string and a list are sliced; \<^verbatim>\<open>None\<close>, a boolean and a number are not
  subscriptable, and a dictionary does not take a slice as a key (\<^verbatim>\<open>TypeError\<close> in the
  supported versions 3.8 to 3.11).
\<close>

definition slice4 :: "jval \<Rightarrow> error + jval" where
  "slice4 x =
     (case x of
        JStr s \<Rightarrow> Inr (JStr (take 4 s))
      | JList xs \<Rightarrow> Inr (JList (take 4 xs))
      | _ \<Rightarrow> Inl TypeError)"

subsection \<open>\<^verbatim>\<open>FuelTypeData.from_dict\<close>\<close>

text \<open>
  A field annotated \<^verbatim>\<open>str\<close> holds whatever the dictionary holds under its key: the
  annotation is not checked.
\<close>

record fuel_type_data =
  ft_period :: jval
  ft_respondent :: jval
  ft_respondent_name :: jval
  ft_fuel_type :: jval
  ft_fuel_type_description :: jval
  ft_value :: pyfloat
  ft_units :: jval
  ft_raw_data :: raw

text \<open>\<^verbatim>\<open>float(data.get(key, 0) or 0)\<close>.\<close>

definition float_or_zero :: "raw \<Rightarrow> string \<Rightarrow> error + pyfloat" where
  "float_or_zero data key = py_float (py_or (get_default data key (JInt 0)) (JInt 0))"

definition FuelTypeData_from_dict :: "raw \<Rightarrow> error + fuel_type_data" where
  "FuelTypeData_from_dict data =
     (case float_or_zero data ''value'' of
        Inl e \<Rightarrow> Inl e
      | Inr v \<Rightarrow>
          Inr \<lparr>ft_period = get_default data ''period'' (JStr ''''),
               ft_respondent = get_default data ''respondent'' (JStr ''''),
               ft_respondent_name = get_default data ''respondent-name'' (JStr ''''),
               ft_fuel_type = get_default data ''fueltype'' (JStr ''''),
               ft_fuel_type_description = get_default data ''type-name'' (JStr ''''),
               ft_value = v,
               ft_units = get_default data ''value-units'' (JStr ''megawatthours''),
               ft_raw_data = data\<rparr>)"

subsection \<open>\<^verbatim>\<open>GeneratorCapacity.from_dict\<close>\<close>

record generator_capacity =
  gc_period :: jval
  gc_state :: jval
  gc_state_description :: jval
  gc_sector :: jval
  gc_sector_description :: jval
  gc_entity_id :: jval
  gc_entity_name :: jval
  gc_plant_id :: jval
  gc_plant_name :: jval
  gc_generator_id :: jval
  gc_technology :: jval
  gc_energy_source :: jval
  gc_energy_source_description :: jval
  gc_prime_mover :: jval
  gc_nameplate_capacity_mw :: pyfloat
  gc_net_summer_capacity_mw :: pyfloat
  gc_net_winter_capacity_mw :: pyfloat
  gc_status :: jval
  gc_operating_year :: "int option"
  gc_latitude :: "pyfloat option"
  gc_longitude :: "pyfloat option"
  gc_raw_data :: raw

text \<open>\<^verbatim>\<open>int(data[key][:4]) if data.get(key) else None\<close>.\<close>

definition year_or_none :: "raw \<Rightarrow> string \<Rightarrow> error + int option" where
  "year_or_none data key =
     (if truthy (get_or_none data key) then
        (case getitem data key of
           Inl e \<Rightarrow> Inl e
         | Inr x \<Rightarrow>
             (case slice4 x of
                Inl e \<Rightarrow> Inl e
              | Inr y \<Rightarrow> (case py_int y of Inl e \<Rightarrow> Inl e | Inr n \<Rightarrow> Inr (Some n))))
      else Inr None)"

text \<open>\<^verbatim>\<open>float(data[key]) if data.get(key) else None\<close>.\<close>

definition float_or_none :: "raw \<Rightarrow> string \<Rightarrow> error + pyfloat option" where
  "float_or_none data key =
     (if truthy (get_or_none data key) then
        (case getitem data key of
           Inl e \<Rightarrow> Inl e
         | Inr x \<Rightarrow> (case py_float x of Inl e \<Rightarrow> Inl e | Inr f \<Rightarrow> Inr (Some f)))
      else Inr None)"

text \<open>
  The keyword arguments are evaluated in the order of the source, so the first expression
  that raises decides the exception: the three capacities, the operating year, the latitude,
  the longitude.
\<close>

definition GeneratorCapacity_from_dict :: "raw \<Rightarrow> error + generator_capacity" where
  "GeneratorCapacity_from_dict data =
     (case float_or_zero data ''nameplate-capacity-mw'' of Inl e \<Rightarrow> Inl e | Inr nameplate \<Rightarrow>
      case float_or_zero data ''net-summer-capacity-mw'' of Inl e \<Rightarrow> Inl e | Inr summer \<Rightarrow>
      case float_or_zero data ''net-winter-capacity-mw'' of Inl e \<Rightarrow> Inl e | Inr winter \<Rightarrow>
      case year_or_none data ''operating-year-month'' of Inl e \<Rightarrow> Inl e | Inr year \<Rightarrow>
      case float_or_none data ''latitude'' of Inl e \<Rightarrow> Inl e | Inr la \<Rightarrow>
      case float_or_none data ''longitude'' of Inl e \<Rightarrow> Inl e | Inr lo \<Rightarrow>
        Inr \<lparr>gc_period = get_default data ''period'' (JStr ''''),
             gc_state = get_default data ''stateid'' (JStr ''''),
             gc_state_description = get_default data ''stateName'' (JStr ''''),
             gc_sector = get_default data ''sector'' (JStr ''''),
             gc_sector_description = get_default data ''sectorName'' (JStr ''''),
             gc_entity_id = get_default data ''entityid'' (JStr ''''),
             gc_entity_name = get_default data ''entityName'' (JStr ''''),
             gc_plant_id = get_default data ''plantid'' (JStr ''''),
             gc_plant_name = get_default data ''plantName'' (JStr ''''),
             gc_generator_id = get_default data ''generatorid'' (JStr ''''),
             gc_technology = get_default data ''technology'' (JStr ''''),
             gc_energy_source = get_default data ''energy_source_code'' (JStr ''''),
             gc_energy_source_description = get_default data ''energy_source_desc'' (JStr ''''),
             gc_prime_mover = get_default data ''prime_mover_code'' (JStr ''''),
             gc_nameplate_capacity_mw = nameplate,
             gc_net_summer_capacity_mw = summer,
             gc_net_winter_capacity_mw = winter,
             gc_status = get_default data ''status'' (JStr ''''),
             gc_operating_year = year,
             gc_latitude = la,
             gc_longitude = lo,
             gc_raw_data = data\<rparr>)"

subsection \<open>Conditions on raw values\<close>

text \<open>The key is missing or holds \<^verbatim>\<open>null\<close>.\<close>

definition absent_or_null :: "jval option \<Rightarrow> bool" where
  "absent_or_null v = (v = None \<or> v = Some JNull)"

text \<open>
  The value under a numeric key is missing, falsy (\<^verbatim>\<open>null\<close>, zero, empty), or something that
  \<^verbatim>\<open>float\<close> accepts.
\<close>

definition floatable :: "jval option \<Rightarrow> bool" where
  "floatable v = (case v of None \<Rightarrow> True | Some x \<Rightarrow> \<not> truthy x \<or> \<not> isl (py_float x))"

text \<open>
  The value under \<^verbatim>\<open>operating-year-month\<close> is missing, falsy, or something whose first four
  items \<^verbatim>\<open>int\<close> accepts.
\<close>

definition yearable :: "jval option \<Rightarrow> bool" where
  "yearable v =
     (case v of
        None \<Rightarrow> True
      | Some x \<Rightarrow> \<not> truthy x \<or> (case slice4 x of Inl e \<Rightarrow> False | Inr y \<Rightarrow> \<not> isl (py_int y)))"

text \<open>Every value that the mapper converts is acceptable.\<close>

definition generator_ok :: "raw \<Rightarrow> bool" where
  "generator_ok data =
     (floatable (data ''nameplate-capacity-mw'') \<and> floatable (data ''net-summer-capacity-mw'')
      \<and> floatable (data ''net-winter-capacity-mw'') \<and> yearable (data ''operating-year-month'')
      \<and> floatable (data ''latitude'') \<and> floatable (data ''longitude''))"

text \<open>The mapped latitude and longitude of a raw record.\<close>

definition latitude_of :: "raw \<Rightarrow> error + pyfloat option" where
  "latitude_of data =
     (case GeneratorCapacity_from_dict data of Inl e \<Rightarrow> Inl e | Inr g \<Rightarrow> Inr (gc_latitude g))"

definition longitude_of :: "raw \<Rightarrow> error + pyfloat option" where
  "longitude_of data =
     (case GeneratorCapacity_from_dict data of Inl e \<Rightarrow> Inl e | Inr g \<Rightarrow> Inr (gc_longitude g))"

text \<open>A sparse generation record and a sparse generator record.\<close>

definition sparse_generation :: raw where
  "sparse_generation = [''period'' \<mapsto> JStr ''2024-01'', ''value'' \<mapsto> JNull]"

definition sparse_generator :: raw where
  "sparse_generator =
     [''plantid'' \<mapsto> JStr ''57'', ''nameplate-capacity-mw'' \<mapsto> JNull,
      ''net-summer-capacity-mw'' \<mapsto> JStr ''12.5'', ''operating-year-month'' \<mapsto> JStr ''2019-06'',
      ''latitude'' \<mapsto> JStr ''0'', ''longitude'' \<mapsto> JFloat (Finite (-95))]"


section \<open>Geo analytics: \<^verbatim>\<open>point_in_polygon\<close> and the bounding box of \<^verbatim>\<open>get_polygon_analytics\<close>\<close>




















section \<open>Properties of the retry policy\<close>

lemma try_attempt_429:
  "status_code r = 429 \<Longrightarrow> try_attempt (Sent r) = Inl EIARateLimitError"
  by (simp add: try_attempt_def handle_response_def)

lemma try_attempt_401:
  "status_code r = 401 \<Longrightarrow> try_attempt (Sent r) = Inl EIAAuthenticationError"
  by (simp add: try_attempt_def handle_response_def)

text \<open>One pass through the loop body either leaves the loop or sleeps and goes on.\<close>

lemma request_from_cases:
  "request_from cfg send k = ([], Inr None) \<and> \<not> int k < max_retries cfg
   \<or> (\<exists>res. request_from cfg send k = ([Attempt k], res)) \<and> int k < max_retries cfg
   \<or> (\<exists>t. request_from cfg send k =
         (Attempt k # Sleep t # fst (request_from cfg send (Suc k)),
          snd (request_from cfg send (Suc k))))
       \<and> int k < max_retries cfg - 1"
  by (subst (1 2 3) request_from.simps)
     (simp split: sum.splits error.splits prod.splits)

lemma attempts_from:
  "Attempt i \<in> set (fst (request_from cfg send k)) \<Longrightarrow> k \<le> i \<and> int i < max_retries cfg"
proof (induction "nat (max_retries cfg - int k)" arbitrary: k)
  case 0
  then show ?case using request_from_cases[of cfg send k] by auto
next
  case (Suc n)
  from request_from_cases[of cfg send k] Suc.prems show ?case
  proof (elim disjE conjE exE)
    fix t
    assume eq: "request_from cfg send k =
         (Attempt k # Sleep t # fst (request_from cfg send (Suc k)),
          snd (request_from cfg send (Suc k)))"
      and lt: "int k < max_retries cfg - 1"
    show ?thesis
    proof (cases "i = k")
      case True
      thus ?thesis using lt by simp
    next
      case False
      hence "Attempt i \<in> set (fst (request_from cfg send (Suc k)))"
        using Suc.prems eq by simp
      moreover have "n = nat (max_retries cfg - int (Suc k))" using Suc.hyps(2) by simp
      ultimately have "Suc k \<le> i \<and> int i < max_retries cfg" by (rule Suc.hyps(1)[rotated])
      thus ?thesis by simp
    qed
  qed auto
qed

lemma auth_at:
  assumes "send i = Sent r" "status_code r = 401" "int i < max_retries cfg"
  shows "request_from cfg send i = ([Attempt i], Inl EIAAuthenticationError)"
  using assms by (subst request_from.simps) (simp add: try_attempt_401)

lemma auth_reached:
  assumes "Attempt i \<in> set (fst (request_from cfg send k))"
    and "send i = Sent r" and "status_code r = 401"
  shows "\<exists>pre. request_from cfg send k = (pre @ [Attempt i], Inl EIAAuthenticationError)"
  using assms(1)
proof (induction "i - k" arbitrary: k)
  case 0
  hence "k = i" "int i < max_retries cfg" using attempts_from[of i cfg send k] by auto
  thus ?case using auth_at[of send i r cfg] assms(2,3) by simp
next
  case (Suc n)
  hence ne: "k \<noteq> i" by simp
  from request_from_cases[of cfg send k] Suc.prems ne show ?case
  proof (elim disjE conjE exE)
    fix t
    assume eq: "request_from cfg send k =
         (Attempt k # Sleep t # fst (request_from cfg send (Suc k)),
          snd (request_from cfg send (Suc k)))"
    hence "Attempt i \<in> set (fst (request_from cfg send (Suc k)))"
      using Suc.prems ne by simp
    moreover have "n = i - Suc k" using Suc.hyps(2) by simp
    ultimately obtain pre where
      "request_from cfg send (Suc k) = (pre @ [Attempt i], Inl EIAAuthenticationError)"
      using Suc.hyps(1)[of "Suc k"] by blast
    hence "request_from cfg send k =
        ((Attempt k # Sleep t # pre) @ [Attempt i], Inl EIAAuthenticationError)"
      using eq by simp
    thus ?thesis by blast
  qed auto
qed

text \<open>
  Claim C4. When attempt \<open>i\<close> (counted from 0) is answered with status 429 and it is not the
  last attempt (\<open>i < max_retries - 1\<close>), the loop sleeps \<open>2 ^ i\<close> seconds and goes on with
  attempt \<open>i + 1\<close>; when it is the last attempt, \<^verbatim>\<open>EIARateLimitError\<close> is raised to the caller.
  With \<open>max_retries = 3\<close> (the default), rate limiting on the first and second attempt and
  success on the third, the request returns the successful body after the events attempt,
  sleep 1, attempt, sleep 2, attempt: a total delay of \<open>1 + 2\<close>.
\<close>

theorem request_rate_limit_backoff:
  assumes "send i = Sent r" and "status_code r = 429"
  shows "(int i < max_retries cfg - 1 \<longrightarrow>
            request_from cfg send i =
              (Attempt i # Sleep (2 ^ i) # fst (request_from cfg send (Suc i)),
               snd (request_from cfg send (Suc i))))
       \<and> (int i = max_retries cfg - 1 \<longrightarrow>
            request_from cfg send i = ([Attempt i], Inl EIARateLimitError))
       \<and> request (default_config key) (rate_limited_twice body) =
            ([Attempt 0, Sleep 1, Attempt 1, Sleep 2, Attempt 2], Inr (Some body))
       \<and> total_delay (fst (request (default_config key) (rate_limited_twice body))) = 1 + 2"
proof -
  have t: "try_attempt (send i) = Inl EIARateLimitError"
    using assms by (simp add: try_attempt_429)
  have a: "int i < max_retries cfg - 1 \<longrightarrow>
            request_from cfg send i =
              (Attempt i # Sleep (2 ^ i) # fst (request_from cfg send (Suc i)),
               snd (request_from cfg send (Suc i)))"
    using t by (subst request_from.simps) (simp split: prod.splits)
  have b: "int i = max_retries cfg - 1 \<longrightarrow>
            request_from cfg send i = ([Attempt i], Inl EIARateLimitError)"
    using t by (subst request_from.simps) simp
  have c: "request (default_config key) (rate_limited_twice body) =
            ([Attempt 0, Sleep 1, Attempt 1, Sleep 2, Attempt 2], Inr (Some body))"
    by (simp add: request_def request_from.simps rate_limited_twice_def try_attempt_def
          handle_response_def default_config_def)
  show ?thesis using a b c by simp
qed

theorem request_rate_limit_backoff_witness:
  "rate_limited_twice ''ok'' 0 = Sent \<lparr>status_code = 429, json = None\<rparr>
   \<and> status_code \<lparr>status_code = 429, json = None :: string option\<rparr> = 429
   \<and> int 0 < max_retries (default_config ''k'') - 1
   \<and> int 0 = max_retries ((default_config ''k'')\<lparr>max_retries := 1\<rparr>) - 1
   \<and> request_from (default_config ''k'') (rate_limited_twice ''ok'') 0 =
        (Attempt 0 # Sleep 1 #
           fst (request_from (default_config ''k'') (rate_limited_twice ''ok'') (Suc 0)),
         snd (request_from (default_config ''k'') (rate_limited_twice ''ok'') (Suc 0)))
   \<and> request_from ((default_config ''k'')\<lparr>max_retries := 1\<rparr>) (rate_limited_twice ''ok'') 0 =
        ([Attempt 0], Inl EIARateLimitError)"
  using request_rate_limit_backoff
          [of "rate_limited_twice ''ok''" 0 "\<lparr>status_code = 429, json = None\<rparr>"
              "default_config ''k''" "''k''" "''ok''"]
        request_rate_limit_backoff
          [of "rate_limited_twice ''ok''" 0 "\<lparr>status_code = 429, json = None\<rparr>"
              "(default_config ''k'')\<lparr>max_retries := 1\<rparr>" "''k''" "''ok''"]
  by (simp add: rate_limited_twice_def default_config_def)

text \<open>
  Claim C8. An attempt answered with status 401 raises \<^verbatim>\<open>EIAAuthenticationError\<close> from that
  attempt: the loop entered at attempt \<open>i\<close> issues that one call and nothing else, however
  many attempts remain; and whenever a request issues an attempt that is answered with 401,
  the request ends with that attempt (no further call, no sleep after it) and raises
  \<^verbatim>\<open>EIAAuthenticationError\<close>.
\<close>

theorem request_auth_failure_immediate:
  assumes "send i = Sent r" and "status_code r = 401"
  shows "(int i < max_retries cfg \<longrightarrow>
            request_from cfg send i = ([Attempt i], Inl EIAAuthenticationError))
       \<and> (Attempt i \<in> set (fst (request cfg send)) \<longrightarrow>
            (\<exists>pre. request cfg send = (pre @ [Attempt i], Inl EIAAuthenticationError)))"
  using auth_at[of send i r cfg] auth_reached[of i cfg send 0 r] assms
  by (simp add: request_def)

theorem request_auth_failure_immediate_witness:
  "unauthorized_third 2 = (Sent \<lparr>status_code = 401, json = None\<rparr> :: string attempt)
   \<and> status_code \<lparr>status_code = 401, json = None :: string option\<rparr> = 401
   \<and> int 2 < max_retries ((default_config ''k'')\<lparr>max_retries := 5\<rparr>)
   \<and> Attempt 2 \<in> set (fst (request ((default_config ''k'')\<lparr>max_retries := 5\<rparr>)
                                (unauthorized_third :: nat \<Rightarrow> string attempt)))
   \<and> request_from ((default_config ''k'')\<lparr>max_retries := 5\<rparr>)
        (unauthorized_third :: nat \<Rightarrow> string attempt) 2 =
        ([Attempt 2], Inl EIAAuthenticationError)
   \<and> request ((default_config ''k'')\<lparr>max_retries := 5\<rparr>)
        (unauthorized_third :: nat \<Rightarrow> string attempt) =
        ([Attempt 0, Sleep 1, Attempt 1, Sleep 1] @ [Attempt 2], Inl EIAAuthenticationError)"
  using request_auth_failure_immediate
          [of "unauthorized_third :: nat \<Rightarrow> string attempt" 2
              "\<lparr>status_code = 401, json = None\<rparr>"
              "(default_config ''k'')\<lparr>max_retries := 5\<rparr>"]
  by (simp add: unauthorized_third_def request_def request_from.simps try_attempt_def
        handle_response_def default_config_def)


section \<open>Properties of the polygon test\<close>

subsection \<open>What the loop computes\<close>










subsection \<open>The edges of a rotated and of a reversed vertex list\<close>








subsection \<open>Crossings lie between the end points of their edge\<close>











subsection \<open>The bounding box, rotation, reversal and division\<close>










section \<open>Properties of the query builder\<close>

lemma fold_snoc: "fold (\<lambda>x ps. ps @ [f x]) xs ps = ps @ map f xs"
  by (induction xs arbitrary: ps) simp_all

lemma fold_snoc_concat: "fold (\<lambda>x ps. ps @ g x) xs ps = ps @ concat (map g xs)"
  by (induction xs arbitrary: ps) simp_all

lemma add_data_columns_ext:
  "\<exists>ext. add_data_columns cols ps = ps @ ext \<and> (\<forall>p\<in>set ext. fst p = ''data[]'')"
  by (cases cols) (auto simp: add_data_columns_def fold_snoc)

lemma facets_fold_ext:
  "\<exists>ext. fold (\<lambda>(facet_name, values) ps.
                  fold (\<lambda>value ps'. ps' @ [(''facets['' @ facet_name @ ''][]'', PStr value)])
                    values ps) l ps = ps @ ext
         \<and> (\<forall>p\<in>set ext. is_facet_key (fst p))"
proof (induction l arbitrary: ps)
  case Nil
  show ?case by simp
next
  case (Cons a l)
  obtain n vs where a: "a = (n, vs)" by (cases a)
  let ?one = "map (\<lambda>v. (''facets['' @ n @ ''][]'', PStr v)) vs"
  from Cons.IH[of "ps @ ?one"] obtain ext where
    ext: "fold (\<lambda>(facet_name, values) ps.
                  fold (\<lambda>value ps'. ps' @ [(''facets['' @ facet_name @ ''][]'', PStr value)])
                    values ps) l (ps @ ?one) = (ps @ ?one) @ ext"
      "\<forall>p\<in>set ext. is_facet_key (fst p)"
    by blast
  have "\<forall>p\<in>set (?one @ ext). is_facet_key (fst p)"
    using ext(2) by (auto simp: is_facet_key_def)
  moreover have "fold (\<lambda>(facet_name, values) ps.
                  fold (\<lambda>value ps'. ps' @ [(''facets['' @ facet_name @ ''][]'', PStr value)])
                    values ps) (a # l) ps = ps @ (?one @ ext)"
    using ext(1) a by (simp add: fold_snoc)
  ultimately show ?case by blast
qed

lemma add_facets_ext:
  "\<exists>ext. add_facets fs ps = ps @ ext \<and> (\<forall>p\<in>set ext. is_facet_key (fst p))"
  using facets_fold_ext by (cases fs) (auto simp: add_facets_def)

lemma add_scalar_ext:
  "\<exists>ext. add_scalar key v ps = ps @ ext \<and> (\<forall>p\<in>set ext. fst p = key)"
  by (cases v) (auto simp: add_scalar_def)

lemma add_sort_from_ext:
  "add_sort_from i ss ps = Inr r \<Longrightarrow> \<exists>ext. r = ps @ ext \<and> (\<forall>p\<in>set ext. is_sort_key (fst p))"
proof (induction ss arbitrary: i ps)
  case Nil
  thus ?case by simp
next
  case (Cons s ss)
  then obtain c where c: "s ''column'' = Some c" by (auto split: option.splits)
  let ?two = "[(''sort['' @ str_nat i @ ''][column]'', PStr c),
               (''sort['' @ str_nat i @ ''][direction]'',
                PStr (case s ''direction'' of None \<Rightarrow> ''desc'' | Some d \<Rightarrow> d))]"
  from Cons.prems c have "add_sort_from (Suc i) ss (ps @ ?two) = Inr r" by simp
  from Cons.IH[OF this] obtain ext where "r = (ps @ ?two) @ ext" "\<forall>p\<in>set ext. is_sort_key (fst p)"
    by blast
  hence "r = ps @ (?two @ ext) \<and> (\<forall>p\<in>set (?two @ ext). is_sort_key (fst p))"
    by (auto simp: is_sort_key_def)
  thus ?case by blast
qed

lemma add_sort_ext:
  "add_sort srt ps = Inr r \<Longrightarrow> \<exists>ext. r = ps @ ext \<and> (\<forall>p\<in>set ext. is_sort_key (fst p))"
  by (cases srt) (auto simp: add_sort_def dest: add_sort_from_ext)

lemma add_length_ext:
  "add_length cfg len ps = ps @ (case len of None \<Rightarrow> [] | Some l \<Rightarrow>
       if l = 0 then [] else [(''length'', PInt (min l (page_size cfg)))])"
  by (cases len) (auto simp: add_length_def)

lemma add_offset_ext:
  "add_offset off ps = ps @ (if off = 0 then [] else [(''offset'', PInt off)])"
  by (auto simp: add_offset_def)

text \<open>The shape of the emitted list: six segments.\<close>

lemma get_data_params_shape:
  assumes "get_data_params cfg q = Inr ps"
  shows "\<exists>cols fcts rng srt.
     ps = [(''api_key'', PStr (api_key cfg))] @ cols @ fcts @ rng @ srt
          @ (case q_length q of None \<Rightarrow> [] | Some l \<Rightarrow>
               if l = 0 then [] else [(''length'', PInt (min l (page_size cfg)))])
          @ (if q_offset q = 0 then [] else [(''offset'', PInt (q_offset q))])
     \<and> (\<forall>p\<in>set cols. fst p = ''data[]'')
     \<and> (\<forall>p\<in>set fcts. is_facet_key (fst p))
     \<and> (\<forall>p\<in>set rng. is_range_key (fst p))
     \<and> (\<forall>p\<in>set srt. is_sort_key (fst p))"
proof -
  let ?p0 = "[(''api_key'', PStr (api_key cfg))]"
  obtain cols where cols: "add_data_columns (q_data_columns q) ?p0 = ?p0 @ cols"
      "\<forall>p\<in>set cols. fst p = ''data[]''"
    using add_data_columns_ext by blast
  obtain fcts where fcts: "add_facets (q_facets q) (?p0 @ cols) = (?p0 @ cols) @ fcts"
      "\<forall>p\<in>set fcts. is_facet_key (fst p)"
    using add_facets_ext by blast
  obtain r1 where r1: "add_scalar ''frequency'' (q_frequency q) (?p0 @ cols @ fcts) = (?p0 @ cols @ fcts) @ r1"
      "\<forall>p\<in>set r1. fst p = ''frequency''"
    using add_scalar_ext by blast
  obtain r2 where r2: "add_scalar ''start'' (q_start q) (?p0 @ cols @ fcts @ r1) = (?p0 @ cols @ fcts @ r1) @ r2"
      "\<forall>p\<in>set r2. fst p = ''start''"
    using add_scalar_ext by blast
  obtain r3 where r3: "add_scalar ''end'' (q_end q) (?p0 @ cols @ fcts @ r1 @ r2) = (?p0 @ cols @ fcts @ r1 @ r2) @ r3"
      "\<forall>p\<in>set r3. fst p = ''end''"
    using add_scalar_ext by blast
  let ?pre = "?p0 @ cols @ fcts @ (r1 @ r2 @ r3)"
  from assms obtain mid where mid: "add_sort (q_sort q) ?pre = Inr mid"
     and ps: "ps = add_offset (q_offset q) (add_length cfg (q_length q) mid)"
    using cols(1) fcts(1) r1(1) r2(1) r3(1)
    by (auto simp: get_data_params_def Let_def split: sum.splits)
  from add_sort_ext[OF mid] obtain srt where srt: "mid = ?pre @ srt" "\<forall>p\<in>set srt. is_sort_key (fst p)"
    by blast
  have rng: "\<forall>p\<in>set (r1 @ r2 @ r3). is_range_key (fst p)"
    using r1(2) r2(2) r3(2) by (auto simp: is_range_key_def)
  have "ps = ?p0 @ cols @ fcts @ (r1 @ r2 @ r3) @ srt
          @ (case q_length q of None \<Rightarrow> [] | Some l \<Rightarrow>
               if l = 0 then [] else [(''length'', PInt (min l (page_size cfg)))])
          @ (if q_offset q = 0 then [] else [(''offset'', PInt (q_offset q))])"
    unfolding ps srt(1) add_length_ext add_offset_ext by simp
  thus ?thesis using cols(2) fcts(2) rng srt(2) by blast
qed

lemma all_before_append:
  "all_before A B (xs @ ys) =
     (all_before A B xs \<and> all_before A B ys
      \<and> (list_ex (\<lambda>q. B (fst q)) xs \<longrightarrow> \<not> list_ex (\<lambda>q. A (fst q)) ys))"
  by (induction xs) (auto simp: list_ex_iff)

lemma all_before_no_B: "\<forall>p\<in>set xs. \<not> B (fst p) \<Longrightarrow> all_before A B xs"
  by (induction xs) auto

lemma all_before_no_A: "\<forall>p\<in>set xs. \<not> A (fst p) \<Longrightarrow> all_before A B xs"
  by (induction xs) (auto simp: list_ex_iff)

lemma facet_not_sort: "take 7 k = ''facets['' \<Longrightarrow> take 5 k \<noteq> ''sort[''"
proof
  assume f: "take 7 k = ''facets[''" and s: "take 5 k = ''sort[''"
  have "take 1 (take 7 k) = ''f''" by (simp only: f) simp
  moreover have "take 1 (take 5 k) = ''s''" by (simp only: s) simp
  ultimately show False by simp
qed

lemma key_classes:
  "is_facet_key k \<Longrightarrow> \<not> is_sort_key k \<and> \<not> is_range_key k \<and> \<not> is_page_key k \<and> k \<noteq> ''data[]'' \<and> k \<noteq> ''api_key''"
  "is_sort_key k \<Longrightarrow> \<not> is_facet_key k \<and> \<not> is_range_key k \<and> \<not> is_page_key k \<and> k \<noteq> ''data[]'' \<and> k \<noteq> ''api_key''"
  "is_range_key k \<Longrightarrow> \<not> is_facet_key k \<and> \<not> is_sort_key k \<and> \<not> is_page_key k \<and> k \<noteq> ''data[]'' \<and> k \<noteq> ''api_key''"
  "is_page_key k \<Longrightarrow> \<not> is_facet_key k \<and> \<not> is_sort_key k \<and> \<not> is_range_key k \<and> k \<noteq> ''data[]'' \<and> k \<noteq> ''api_key''"
  by (auto simp: is_facet_key_def is_sort_key_def is_range_key_def is_page_key_def
        dest: facet_not_sort)

lemma other_keys:
  "\<not> is_facet_key ''data[]''" "\<not> is_sort_key ''data[]''" "\<not> is_range_key ''data[]''" "\<not> is_page_key ''data[]''"
  "\<not> is_facet_key ''api_key''" "\<not> is_sort_key ''api_key''" "\<not> is_range_key ''api_key''" "\<not> is_page_key ''api_key''"
  "is_page_key ''length''" "is_page_key ''offset''"
  by (simp_all add: is_facet_key_def is_sort_key_def is_range_key_def is_page_key_def)

lemma segments_ordered:
  assumes "\<forall>p\<in>set xs. \<not> A (fst p) \<and> \<not> B (fst p)"
    and "\<forall>p\<in>set as. \<not> B (fst p)"
    and "\<forall>p\<in>set ms. \<not> A (fst p) \<and> \<not> B (fst p)"
    and "\<forall>p\<in>set bs. \<not> A (fst p)"
    and "\<forall>p\<in>set zs. \<not> A (fst p)"
  shows "all_before A B (xs @ as @ ms @ bs @ zs)"
  using assms by (auto simp: all_before_append all_before_no_A all_before_no_B list_ex_iff)


lemma filter_none: "\<forall>p\<in>set xs. fst p \<noteq> key \<Longrightarrow> filter (\<lambda>p. fst p = key) xs = []"
  by (induction xs) auto

lemma length_key_classes:
  "\<not> is_facet_key ''length''" "\<not> is_sort_key ''length''" "\<not> is_range_key ''length''"
  by (simp_all add: is_facet_key_def is_sort_key_def is_range_key_def)

lemma get_data_params_length_independent:
  "get_data_params cfg (q\<lparr>q_length := a\<rparr>) = Inl e \<Longrightarrow> get_data_params cfg (q\<lparr>q_length := b\<rparr>) = Inl e"
  by (auto simp: get_data_params_def Let_def split: sum.splits)

lemma add_sort_from_error: "add_sort_from i ss ps = Inl e \<Longrightarrow> e = KeyError"
  by (induction ss arbitrary: i ps) (auto split: option.splits)

lemma get_data_params_error: "get_data_params cfg q = Inl e \<Longrightarrow> e = KeyError"
  by (auto simp: get_data_params_def Let_def add_sort_def split: sum.splits option.splits
       dest: add_sort_from_error)

lemma length_values:
  assumes "l \<noteq> 0" and "get_data_params cfg (q\<lparr>q_length := Some l\<rparr>) = Inr params"
  shows "values_of ''length'' params = [PInt (min l (page_size cfg))]"
proof -
  from get_data_params_shape[OF assms(2)] assms(1) obtain cols fcts rng srt where
    ps: "params = [(''api_key'', PStr (api_key cfg))] @ cols @ fcts @ rng @ srt
          @ [(''length'', PInt (min l (page_size cfg)))]
          @ (if q_offset q = 0 then [] else [(''offset'', PInt (q_offset q))])"
    and k: "\<forall>p\<in>set cols. fst p = ''data[]''" "\<forall>p\<in>set fcts. is_facet_key (fst p)"
       "\<forall>p\<in>set rng. is_range_key (fst p)" "\<forall>p\<in>set srt. is_sort_key (fst p)"
    by auto
  have "\<forall>p\<in>set cols. fst p \<noteq> ''length''" using k(1) by auto
  moreover have "\<forall>p\<in>set fcts. fst p \<noteq> ''length''" using k(2) length_key_classes by metis
  moreover have "\<forall>p\<in>set rng. fst p \<noteq> ''length''" using k(3) length_key_classes by metis
  moreover have "\<forall>p\<in>set srt. fst p \<noteq> ''length''" using k(4) length_key_classes by metis
  ultimately show ?thesis unfolding ps values_of_def by (simp add: filter_none)
qed


lemmas get_data_evals =
  get_data_params_def monthly_sorted_def full_query_def no_filters_def default_config_def
  add_data_columns_def add_facets_def add_scalar_def add_sort_def add_length_def
  add_offset_def str_nat.simps

lemmas key_evals =
  is_facet_key_def is_sort_key_def is_range_key_def is_page_key_def is_scalar_key_def

lemma add_data_columns_app: "add_data_columns cols ps = ps @ add_data_columns cols []"
  by (cases cols) (simp_all add: add_data_columns_def fold_snoc)

lemma facets_fold_app:
  fixes l :: "(string \<times> string list) list"
  defines "F \<equiv> fold (\<lambda>(facet_name, values) ps.
            fold (\<lambda>value ps'. ps' @ [(''facets['' @ facet_name @ ''][]'', PStr value)])
              values ps)"
  shows "F l ps = ps @ F l []"
proof (induction l arbitrary: ps)
  case Nil
  show ?case by (simp add: F_def)
next
  case (Cons a l)
  obtain n vs where a: "a = (n, vs)" by (cases a)
  let ?one = "map (\<lambda>v. (''facets['' @ n @ ''][]'', PStr v)) vs"
  have step: "F (a # l) qs = F l (qs @ ?one)" for qs
    unfolding F_def a by (simp add: fold_snoc)
  show ?case
    unfolding step Cons.IH[of "ps @ ?one"] Cons.IH[of "[] @ ?one"] by simp
qed

lemma add_facets_app: "add_facets fs ps = ps @ add_facets fs []"
proof (cases fs)
  case None
  thus ?thesis by (simp add: add_facets_def)
next
  case (Some a)
  show ?thesis unfolding Some add_facets_def option.case by (rule facets_fold_app)
qed

lemma add_scalar_app: "add_scalar key v ps = ps @ add_scalar key v []"
  by (cases v) (simp_all add: add_scalar_def)

lemma add_sort_from_app:
  "add_sort_from i ss ps =
     (case add_sort_from i ss [] of Inl e \<Rightarrow> Inl e | Inr ext \<Rightarrow> Inr (ps @ ext))"
proof (induction ss arbitrary: i ps)
  case Nil
  show ?case by simp
next
  case (Cons s ss)
  show ?case
  proof (cases "s ''column''")
    case None
    thus ?thesis by simp
  next
    case (Some c)
    let ?two = "[(''sort['' @ str_nat i @ ''][column]'', PStr c),
                 (''sort['' @ str_nat i @ ''][direction]'',
                  PStr (case s ''direction'' of None \<Rightarrow> ''desc'' | Some d \<Rightarrow> d))]"
    have l: "add_sort_from i (s # ss) ps = add_sort_from (Suc i) ss (ps @ ?two)"
      using Some by simp
    have r: "add_sort_from i (s # ss) [] = add_sort_from (Suc i) ss ?two"
      using Some by simp
    show ?thesis
      unfolding l r Cons.IH[of "Suc i" "ps @ ?two"] Cons.IH[of "Suc i" ?two]
      by (simp split: sum.splits)
  qed
qed

lemma add_sort_app:
  "add_sort srt ps = (case add_sort srt [] of Inl e \<Rightarrow> Inl e | Inr ext \<Rightarrow> Inr (ps @ ext))"
  by (cases srt) (simp_all add: add_sort_def add_sort_from_app[of 0 _ ps])

lemma add_length_app: "add_length cfg len ps = ps @ add_length cfg len []"
  by (cases len) (simp_all add: add_length_def)

lemma add_offset_app: "add_offset off ps = ps @ add_offset off []"
  by (simp add: add_offset_def)

text \<open>The emitted list is the concatenation of the blocks, each built from its own argument.\<close>

lemma get_data_params_blocks:
  assumes "get_data_params cfg q = Inr params"
  shows "\<exists>srt. add_sort (q_sort q) [] = Inr srt
     \<and> params = [(''api_key'', PStr (api_key cfg))]
          @ add_data_columns (q_data_columns q) []
          @ add_facets (q_facets q) []
          @ add_scalar ''frequency'' (q_frequency q) []
          @ add_scalar ''start'' (q_start q) []
          @ add_scalar ''end'' (q_end q) []
          @ srt
          @ add_length cfg (q_length q) []
          @ add_offset (q_offset q) []"
proof -
  let ?p0 = "[(''api_key'', PStr (api_key cfg))]"
  let ?pre = "?p0 @ add_data_columns (q_data_columns q) [] @ add_facets (q_facets q) []
          @ add_scalar ''frequency'' (q_frequency q) []
          @ add_scalar ''start'' (q_start q) []
          @ add_scalar ''end'' (q_end q) []"
  have pre: "add_scalar ''end'' (q_end q) (add_scalar ''start'' (q_start q)
          (add_scalar ''frequency'' (q_frequency q) (add_facets (q_facets q)
          (add_data_columns (q_data_columns q) ?p0)))) = ?pre"
    by (simp add: add_data_columns_app[of _ ?p0] add_facets_app[of _ "_ # _"]
          add_scalar_app[of _ _ "_ # _"])
  from assms obtain mid where mid: "add_sort (q_sort q) ?pre = Inr mid"
     and ps: "params = add_offset (q_offset q) (add_length cfg (q_length q) mid)"
    unfolding get_data_params_def Let_def pre by (auto split: sum.splits)
  from mid obtain srt where srt: "add_sort (q_sort q) [] = Inr srt" "mid = ?pre @ srt"
    by (subst (asm) add_sort_app) (auto split: sum.splits)
  have "params = ?pre @ srt @ add_length cfg (q_length q) [] @ add_offset (q_offset q) []"
    unfolding ps srt(2)
    by (subst add_offset_app, subst add_length_app) simp
  thus ?thesis using srt(1) by simp
qed

text \<open>The keys of each block.\<close>

lemma block_keys:
  "\<forall>p\<in>set (add_data_columns cols []). fst p = ''data[]''"
  "\<forall>p\<in>set (add_facets fcts []). is_facet_key (fst p)"
  "add_scalar key v [] = [] \<or> (\<exists>s. add_scalar key v [] = [(key, PStr s)])"
  "add_sort srt [] = Inr ext \<Longrightarrow> \<forall>p\<in>set ext. is_sort_key (fst p)"
  "add_length cfg len [] = [] \<or> (\<exists>l. add_length cfg len [] = [(''length'', PInt l)])"
  "add_offset off [] = [] \<or> add_offset off [] = [(''offset'', PInt off)]"
proof -
  show "\<forall>p\<in>set (add_data_columns cols []). fst p = ''data[]''"
    using add_data_columns_ext[of cols "[]"] by auto
  show "\<forall>p\<in>set (add_facets fcts []). is_facet_key (fst p)"
    using add_facets_ext[of fcts "[]"] by auto
  show "add_scalar key v [] = [] \<or> (\<exists>s. add_scalar key v [] = [(key, PStr s)])"
    by (cases v) (auto simp: add_scalar_def)
  show "add_sort srt [] = Inr ext \<Longrightarrow> \<forall>p\<in>set ext. is_sort_key (fst p)"
    using add_sort_ext[of srt "[]" ext] by auto
  show "add_length cfg len [] = [] \<or> (\<exists>l. add_length cfg len [] = [(''length'', PInt l)])"
    by (cases len) (auto simp: add_length_def)
  show "add_offset off [] = [] \<or> add_offset off [] = [(''offset'', PInt off)]"
    by (auto simp: add_offset_def)
qed


lemma get_data_params_ordered:
  assumes "get_data_params cfg q = Inr params"
  shows "all_before is_facet_key is_range_key params
       \<and> all_before is_facet_key is_sort_key params
       \<and> all_before is_range_key is_sort_key params
       \<and> all_before is_facet_key is_page_key params
       \<and> all_before is_range_key is_page_key params
       \<and> all_before is_sort_key is_page_key params"
proof -
  from get_data_params_shape[OF assms] obtain cols fcts rng srt pg where
    ps: "params = [(''api_key'', PStr (api_key cfg))] @ cols @ fcts @ rng @ srt @ pg"
    and k: "\<forall>p\<in>set cols. fst p = ''data[]''" "\<forall>p\<in>set fcts. is_facet_key (fst p)"
       "\<forall>p\<in>set rng. is_range_key (fst p)" "\<forall>p\<in>set srt. is_sort_key (fst p)"
       "\<forall>p\<in>set pg. is_page_key (fst p)"
    by (fastforce simp: other_keys split: option.splits if_splits)
  let ?x = "[(''api_key'', PStr (api_key cfg))] @ cols"
  have x: "\<forall>p\<in>set ?x. \<not> is_facet_key (fst p) \<and> \<not> is_sort_key (fst p)
              \<and> \<not> is_range_key (fst p) \<and> \<not> is_page_key (fst p)"
    using k(1) by (auto simp: other_keys)
  have 1: "all_before is_facet_key is_range_key (?x @ fcts @ [] @ rng @ (srt @ pg))"
    using x k by (intro segments_ordered) (auto dest: key_classes)
  have 2: "all_before is_facet_key is_sort_key (?x @ fcts @ rng @ srt @ pg)"
    using x k by (intro segments_ordered) (auto dest: key_classes)
  have 3: "all_before is_range_key is_sort_key ((?x @ fcts) @ rng @ [] @ srt @ pg)"
    using x k by (intro segments_ordered) (auto dest: key_classes)
  have 4: "all_before is_facet_key is_page_key (?x @ fcts @ (rng @ srt) @ pg @ [])"
    using x k by (intro segments_ordered) (auto dest: key_classes)
  have 5: "all_before is_range_key is_page_key ((?x @ fcts) @ rng @ srt @ pg @ [])"
    using x k by (intro segments_ordered) (auto dest: key_classes)
  have 6: "all_before is_sort_key is_page_key ((?x @ fcts @ rng) @ srt @ [] @ pg @ [])"
    using x k by (intro segments_ordered) (auto dest: key_classes)
  show ?thesis using 1 2 3 4 5 6 unfolding ps by simp
qed

text \<open>
  Claim C5, as the code has it. Whenever \<^verbatim>\<open>get_data\<close> builds its pairs, the list is the
  concatenation, in this order, of nine blocks, each built from its own argument alone and
  empty when that argument is absent or falsy: the \<^verbatim>\<open>api_key\<close> pair, the \<^verbatim>\<open>data[]\<close> pairs of
  the columns, the facet pairs, the frequency pair, the start pair, the end pair, the sort
  pairs, the length pair, the offset pair. Every pair of a block has the key of that block.
  So every facet pair comes before every frequency, start and end pair, these come before
  every sort pair, and only the pagination pairs (length, offset) come last, after the facet,
  the frequency, start and end, and the sort pairs. The list of pairs is a function of the
  arguments.
\<close>

theorem get_data_pair_order:
  assumes "get_data_params cfg q = Inr params"
  shows "\<exists>srt. add_sort (q_sort q) [] = Inr srt
     \<and> params = [(''api_key'', PStr (api_key cfg))]
          @ add_data_columns (q_data_columns q) []
          @ add_facets (q_facets q) []
          @ add_scalar ''frequency'' (q_frequency q) []
          @ add_scalar ''start'' (q_start q) []
          @ add_scalar ''end'' (q_end q) []
          @ srt
          @ add_length cfg (q_length q) []
          @ add_offset (q_offset q) []
     \<and> (\<forall>p\<in>set (add_data_columns (q_data_columns q) []). fst p = ''data[]'')
     \<and> (\<forall>p\<in>set (add_facets (q_facets q) []). is_facet_key (fst p))
     \<and> (\<forall>p\<in>set (add_scalar ''frequency'' (q_frequency q) []). fst p = ''frequency'')
     \<and> (\<forall>p\<in>set (add_scalar ''start'' (q_start q) []). fst p = ''start'')
     \<and> (\<forall>p\<in>set (add_scalar ''end'' (q_end q) []). fst p = ''end'')
     \<and> (\<forall>p\<in>set srt. is_sort_key (fst p))
     \<and> (\<forall>p\<in>set (add_length cfg (q_length q) []). fst p = ''length'')
     \<and> (\<forall>p\<in>set (add_offset (q_offset q) []). fst p = ''offset'')
     \<and> all_before is_facet_key is_range_key params
     \<and> all_before is_facet_key is_sort_key params
     \<and> all_before is_range_key is_sort_key params
     \<and> all_before is_facet_key is_page_key params
     \<and> all_before is_range_key is_page_key params
     \<and> all_before is_sort_key is_page_key params"
proof -
  from get_data_params_blocks[OF assms] obtain srt where
    srt: "add_sort (q_sort q) [] = Inr srt"
    and ps: "params = [(''api_key'', PStr (api_key cfg))]
          @ add_data_columns (q_data_columns q) []
          @ add_facets (q_facets q) []
          @ add_scalar ''frequency'' (q_frequency q) []
          @ add_scalar ''start'' (q_start q) []
          @ add_scalar ''end'' (q_end q) []
          @ srt
          @ add_length cfg (q_length q) []
          @ add_offset (q_offset q) []"
    by blast
  have sc: "\<forall>p\<in>set (add_scalar key v []). fst p = key" for key v
    using block_keys(3)[of key v] by auto
  have ln: "\<forall>p\<in>set (add_length cfg (q_length q) []). fst p = ''length''"
    using block_keys(5)[of cfg "q_length q"] by auto
  have off: "\<forall>p\<in>set (add_offset (q_offset q) []). fst p = ''offset''"
    using block_keys(6)[of "q_offset q"] by auto
  note ord = get_data_params_ordered[OF assms]
  show ?thesis
    apply (rule exI[of _ srt])
    apply (intro conjI)
                   apply (rule srt)
                  apply (rule ps)
                 apply (rule block_keys(1))
                apply (rule block_keys(2))
               apply (rule sc)
              apply (rule sc)
             apply (rule sc)
            apply (rule block_keys(4)[OF srt])
           apply (rule ln)
          apply (rule off)
    using ord by simp_all
qed

theorem get_data_pair_order_witness:
  "get_data_params (default_config ''k'') full_query = Inr (full_query_pairs 5000)
   \<and> (\<exists>srt. add_sort (q_sort full_query) [] = Inr srt
     \<and> full_query_pairs 5000 = [(''api_key'', PStr (api_key (default_config ''k'')))]
          @ add_data_columns (q_data_columns full_query) []
          @ add_facets (q_facets full_query) []
          @ add_scalar ''frequency'' (q_frequency full_query) []
          @ add_scalar ''start'' (q_start full_query) []
          @ add_scalar ''end'' (q_end full_query) []
          @ srt
          @ add_length (default_config ''k'') (q_length full_query) []
          @ add_offset (q_offset full_query) []
     \<and> (\<forall>p\<in>set (add_data_columns (q_data_columns full_query) []). fst p = ''data[]'')
     \<and> (\<forall>p\<in>set (add_facets (q_facets full_query) []). is_facet_key (fst p))
     \<and> (\<forall>p\<in>set (add_scalar ''frequency'' (q_frequency full_query) []). fst p = ''frequency'')
     \<and> (\<forall>p\<in>set (add_scalar ''start'' (q_start full_query) []). fst p = ''start'')
     \<and> (\<forall>p\<in>set (add_scalar ''end'' (q_end full_query) []). fst p = ''end'')
     \<and> (\<forall>p\<in>set srt. is_sort_key (fst p))
     \<and> (\<forall>p\<in>set (add_length (default_config ''k'') (q_length full_query) []). fst p = ''length'')
     \<and> (\<forall>p\<in>set (add_offset (q_offset full_query) []). fst p = ''offset'')
     \<and> all_before is_facet_key is_range_key (full_query_pairs 5000)
     \<and> all_before is_facet_key is_sort_key (full_query_pairs 5000)
     \<and> all_before is_range_key is_sort_key (full_query_pairs 5000)
     \<and> all_before is_facet_key is_page_key (full_query_pairs 5000)
     \<and> all_before is_range_key is_page_key (full_query_pairs 5000)
     \<and> all_before is_sort_key is_page_key (full_query_pairs 5000))"
proof -
  have e: "get_data_params (default_config ''k'') full_query = Inr (full_query_pairs 5000)"
    by (simp add: get_data_evals full_query_pairs_def)
  show ?thesis by (rule conjI[OF e get_data_pair_order[OF e]])
qed

text \<open>
  Claim C5 as stated fails: the frequency pair is emitted before the sort pairs, so the
  scalar parameters are not all after the sort pairs.
\<close>

theorem get_data_scalars_last_counterexample:
  "get_data_params (default_config ''k'') monthly_sorted =
     Inr [(''api_key'', PStr ''k''), (''frequency'', PStr ''monthly''),
          (''sort[0][column]'', PStr ''period''), (''sort[0][direction]'', PStr ''desc'')]
   \<and> \<not> all_before is_sort_key is_scalar_key
         [(''api_key'', PStr ''k''), (''frequency'', PStr ''monthly''),
          (''sort[0][column]'', PStr ''period''), (''sort[0][direction]'', PStr ''desc'')]"
  by (simp add: get_data_evals key_evals)

text \<open>
  Claim C9, as the code has it. For every positive \<^verbatim>\<open>length\<close>, whenever \<^verbatim>\<open>get_data\<close> builds
  its pairs, exactly one length pair is emitted and its value is the minimum of the length
  and the configured page size; under the default configuration that is
  \<open>min length 5000\<close>. The length never causes an error: the only error of the builder is
  the \<^verbatim>\<open>KeyError\<close> of a sort entry without a column, raised with or without a length.
\<close>

theorem get_data_length_clamped:
  assumes "0 < l"
  shows "(get_data_params cfg (q\<lparr>q_length := Some l\<rparr>) = Inr params \<longrightarrow>
            values_of ''length'' params = [PInt (min l (page_size cfg))])
       \<and> (get_data_params (default_config key) (q\<lparr>q_length := Some l\<rparr>) = Inr params' \<longrightarrow>
            values_of ''length'' params' = [PInt (min l 5000)])
       \<and> (get_data_params cfg (q\<lparr>q_length := Some l\<rparr>) = Inl e \<longrightarrow>
            e = KeyError \<and> get_data_params cfg (q\<lparr>q_length := None\<rparr>) = Inl KeyError)"
proof -
  have nz: "l \<noteq> 0" using assms by simp
  have "page_size (default_config key) = 5000" by (simp add: default_config_def)
  thus ?thesis
    using length_values[OF nz, of cfg q params] length_values[OF nz, of "default_config key" q params']
      get_data_params_error[of cfg "q\<lparr>q_length := Some l\<rparr>" e]
      get_data_params_length_independent[where cfg=cfg and q=q and a="Some l" and e=e and b=None]
    by auto
qed


theorem get_data_length_clamped_witness:
  "(0::int) < 7000
   \<and> get_data_params ((default_config ''k'')\<lparr>page_size := 100\<rparr>)
        (full_query\<lparr>q_length := Some 7000\<rparr>) = Inr (full_query_pairs 100)
   \<and> get_data_params (default_config ''k'') (full_query\<lparr>q_length := Some 7000\<rparr>) =
        Inr (full_query_pairs 5000)
   \<and> values_of ''length'' (full_query_pairs 100)
       = [PInt (min 7000 (page_size ((default_config ''k'')\<lparr>page_size := 100\<rparr>)))]
   \<and> values_of ''length'' (full_query_pairs 5000) = [PInt (min 7000 5000)]
   \<and> get_data_params (default_config ''k'')
         (monthly_sorted\<lparr>q_sort := Some [[''direction'' \<mapsto> ''asc'']], q_length := Some 7000\<rparr>)
       = Inl KeyError
   \<and> get_data_params (default_config ''k'')
         (monthly_sorted\<lparr>q_sort := Some [[''direction'' \<mapsto> ''asc'']], q_length := None\<rparr>)
       = Inl KeyError"
proof -
  have pos: "(0::int) < 7000" by simp
  have a: "get_data_params ((default_config ''k'')\<lparr>page_size := 100\<rparr>)
        (full_query\<lparr>q_length := Some 7000\<rparr>) = Inr (full_query_pairs 100)"
    by (simp add: get_data_evals full_query_pairs_def)
  have b: "get_data_params (default_config ''k'') (full_query\<lparr>q_length := Some 7000\<rparr>) =
        Inr (full_query_pairs 5000)"
    by (simp add: get_data_evals full_query_pairs_def)
  have c: "get_data_params (default_config ''k'')
         (monthly_sorted\<lparr>q_sort := Some [[''direction'' \<mapsto> ''asc'']], q_length := Some 7000\<rparr>)
       = Inl KeyError"
    by (simp add: get_data_evals)
  note t1 = get_data_length_clamped
          [OF pos, of "(default_config ''k'')\<lparr>page_size := 100\<rparr>" full_query
              "full_query_pairs 100" "''k''" "full_query_pairs 5000" KeyError]
  note t2 = get_data_length_clamped
          [OF pos, of "default_config ''k''"
              "monthly_sorted\<lparr>q_sort := Some [[''direction'' \<mapsto> ''asc'']]\<rparr>"
              "[]" "''k''" "[]" KeyError]
  have "values_of ''length'' (full_query_pairs 100)
       = [PInt (min 7000 (page_size ((default_config ''k'')\<lparr>page_size := 100\<rparr>)))]"
    using t1 a by blast
  moreover have "values_of ''length'' (full_query_pairs 5000) = [PInt (min 7000 5000)]"
    using t1 b by blast
  moreover have "get_data_params (default_config ''k'')
         (monthly_sorted\<lparr>q_sort := Some [[''direction'' \<mapsto> ''asc'']], q_length := None\<rparr>)
       = Inl KeyError"
    using t2 c by simp
  ultimately show ?thesis using pos a b c by blast
qed

text \<open>
  Claim C9 as stated fails: the ceiling is the configured page size, not the constant 5000.
  With a page size of 10000 a length of 7000 is emitted as it is.
\<close>

theorem get_data_length_5000_counterexample:
  "get_data_params ((default_config ''k'')\<lparr>page_size := 10000\<rparr>)
     (no_filters\<lparr>q_length := Some 7000\<rparr>) =
     Inr [(''api_key'', PStr ''k''), (''length'', PInt 7000)]
   \<and> values_of ''length'' [(''api_key'', PStr ''k''), (''length'', PInt 7000)]
       \<noteq> [PInt (min 7000 5000)]"
  by (simp add: get_data_evals values_of_def)

section \<open>Properties of the paginated fetcher\<close>

text \<open>No cap in reach: the whole page is yielded.\<close>

lemma emit_all:
  assumes "max_records = None \<or> max_records = Some 0
           \<or> (\<exists>m. max_records = Some m \<and> tf + int (length data) < m)"
  shows "emit data tf max_records = (data, tf + int (length data), False)"
  using assms
proof (induction data arbitrary: tf)
  case Nil
  show ?case by simp
next
  case (Cons x xs)
  have "emit xs (tf + 1) max_records = (xs, tf + 1 + int (length xs), False)"
    using Cons.prems by (intro Cons.IH) auto
  thus ?case using Cons.prems by (auto simp: Let_def)
qed

text \<open>The cap is reached inside the page.\<close>

lemma emit_capped:
  assumes "max_records = Some m" and "0 \<le> tf" and "tf < m" and "m \<le> tf + int (length data)"
  shows "emit data tf max_records = (take (nat (m - tf)) data, m, True)"
  using assms(2,3,4)
proof (induction data arbitrary: tf)
  case Nil
  thus ?case by simp
next
  case (Cons x xs)
  show ?case
  proof (cases "tf + 1 \<ge> m")
    case True
    hence "m = tf + 1" using Cons.prems by simp
    thus ?thesis using assms(1) Cons.prems by (simp add: Let_def)
  next
    case False
    hence "emit xs (tf + 1) max_records = (take (nat (m - (tf + 1))) xs, m, True)"
      using Cons.prems by (intro Cons.IH) auto
    moreover have "nat (m - tf) = Suc (nat (m - (tf + 1)))" using False by simp
    ultimately show ?thesis using assms(1) False by (simp add: Let_def)
  qed
qed

lemma page_of_mock_fetch:
  "page_of (mock_fetch records off lmt) off =
     (slice records off lmt, off + int (length (slice records off lmt)) < int (length records))"
  by (simp add: page_of_def mock_fetch_def Let_def)

lemma page_of_mock_fetch_paginated:
  "page_of (mock_fetch_paginated records off lmt) off =
     (slice records off lmt, off + int (length (slice records off lmt)) < int (length records))"
  by (simp add: page_of_def mock_fetch_paginated_def has_more_def)

lemma take_slice:
  "take k records @ slice records (int k) lmt = take (k + length (slice records (int k) lmt)) records"
  by (simp add: slice_def take_add min_def)

lemma take_take_slice:
  assumes "j \<le> length (slice records (int k) lmt)"
  shows "take k records @ take j (slice records (int k) lmt) = take (k + j) records"
proof -
  have "j \<le> nat lmt" using assms by (simp add: slice_def)
  hence "take j (slice records (int k) lmt) = take j (drop k records)"
    by (simp add: slice_def min_absorb1)
  thus ?thesis by (simp add: take_add)
qed

lemma length_slice: "length (slice records (int k) lmt) = min (nat lmt) (length records - k)"
  by (simp add: slice_def)

lemma paginate_loop_mock:
  fixes records :: "'a list"
  assumes f: "\<And>off lmt. page_of (f off lmt) off =
       (slice records off lmt, off + int (length (slice records off lmt)) < int (length records))"
    and ps: "0 < psize"
    and cap: "mx = None \<or> (\<exists>m. mx = Some m \<and> int k < m)"
    and k: "k \<le> length records"
  shows "\<exists>calls'. paginate_loop f psize mx (int k) (int k) (take k records) calls
           = Some (expected records mx, calls')"
  using cap k
proof (induction "length records - k" arbitrary: k calls rule: less_induct)
  case less
  let ?n = "length records"
  let ?data = "slice records (int k) psize"
  let ?k' = "k + length ?data"
  have len: "length ?data = min (nat psize) (?n - k)" by (rule length_slice)
  have k'n: "?k' \<le> ?n" using less.prems(2) len by simp
  note unfold = paginate_loop.simps[of f psize mx "int k" "int k" "take k records" calls]
  show ?case
  proof (cases "?data = []")
    case True
    hence "k = ?n" using len ps less.prems(2) by (simp add: min_def split: if_splits)
    hence "expected records mx = take k records"
      using less.prems(1) by (auto simp: expected_def)
    thus ?thesis using True unfold f by (simp add: Let_def)
  next
    case False
    show ?thesis
    proof (cases "\<exists>m. mx = Some m \<and> m \<le> int ?k'")
      case True
      then obtain m where m: "mx = Some m" "m \<le> int ?k'" by blast
      hence km: "int k < m" using less.prems(1) by auto
      have e: "emit ?data (int k) mx = (take (nat (m - int k)) ?data, m, True)"
        using m km by (intro emit_capped) auto
      have "nat (m - int k) \<le> length ?data" using m(2) km by simp
      hence "take k records @ take (nat (m - int k)) ?data = take (k + nat (m - int k)) records"
        by (rule take_take_slice)
      moreover have "k + nat (m - int k) = nat m" using km by simp
      ultimately have "take k records @ take (nat (m - int k)) ?data = expected records mx"
        using m(1) by (simp add: expected_def)
      thus ?thesis using False unfold f e by (simp add: Let_def)
    next
      case nocap: False
      hence cap': "mx = None \<or> (\<exists>m. mx = Some m \<and> int ?k' < m)"
        using less.prems(1) by auto
      have e: "emit ?data (int k) mx = (?data, int k + int (length ?data), False)"
        using cap' by (intro emit_all) auto
      have y: "take k records @ ?data = take ?k' records" by (rule take_slice)
      show ?thesis
      proof (cases "\<not> (int k + int (length ?data) < int ?n) \<or> int (length ?data) < psize")
        case True
        hence "?k' = ?n" using len k'n by (auto simp: min_def split: if_splits)
        hence "take ?k' records = expected records mx"
          using cap' by (auto simp: expected_def)
        thus ?thesis using False unfold f e y True by (simp add: Let_def)
      next
        case more: False
        have pos: "0 < length ?data" using False by simp
        have dec: "?n - ?k' < ?n - k" using pos k'n by arith
        have "\<exists>calls'. paginate_loop f psize mx (int ?k') (int ?k') (take ?k' records)
                 (calls @ [(int k, psize)]) = Some (expected records mx, calls')"
          using dec k'n cap' by (intro less.hyps) auto
        moreover have "paginate_loop f psize mx (int k) (int k) (take k records) calls
             = paginate_loop f psize mx (int ?k') (int ?k') (take ?k' records)
                 (calls @ [(int k, psize)])"
          using False unfold f e y more by (simp add: Let_def)
        ultimately show ?thesis by simp
      qed
    qed
  qed
qed

lemma offset_key_classes:
  "\<not> is_facet_key ''offset''" "\<not> is_sort_key ''offset''" "\<not> is_range_key ''offset''"
  by (simp_all add: is_facet_key_def is_sort_key_def is_range_key_def)

lemma offset_values:
  assumes "get_data_params cfg q = Inr params"
  shows "values_of ''offset'' params = (if q_offset q = 0 then [] else [PInt (q_offset q)])"
proof -
  from get_data_params_shape[OF assms] obtain cols fcts rng srt where
    ps: "params = [(''api_key'', PStr (api_key cfg))] @ cols @ fcts @ rng @ srt
          @ (case q_length q of None \<Rightarrow> [] | Some l \<Rightarrow>
               if l = 0 then [] else [(''length'', PInt (min l (page_size cfg)))])
          @ (if q_offset q = 0 then [] else [(''offset'', PInt (q_offset q))])"
    and k: "\<forall>p\<in>set cols. fst p = ''data[]''" "\<forall>p\<in>set fcts. is_facet_key (fst p)"
       "\<forall>p\<in>set rng. is_range_key (fst p)" "\<forall>p\<in>set srt. is_sort_key (fst p)"
    by auto
  have "\<forall>p\<in>set cols. fst p \<noteq> ''offset''" using k(1) by auto
  moreover have "\<forall>p\<in>set fcts. fst p \<noteq> ''offset''" using k(2) offset_key_classes by metis
  moreover have "\<forall>p\<in>set rng. fst p \<noteq> ''offset''" using k(3) offset_key_classes by metis
  moreover have "\<forall>p\<in>set srt. fst p \<noteq> ''offset''" using k(4) offset_key_classes by metis
  ultimately show ?thesis unfolding ps values_of_def
    by (simp add: filter_none split: option.splits)
qed

lemma get_data_params_page:
  assumes "get_data_params cfg q = Inr params"
  shows "\<exists>params'. get_data_params cfg (q\<lparr>q_length := a, q_offset := b\<rparr>) = Inr params'"
  using assms by (auto simp: get_data_params_def Let_def split: sum.splits)

lemma request_mock_server:
  assumes "0 < max_retries cfg"
  shows "snd (request cfg (mock_server records params)) =
     Inr (Some \<lparr>r_data = Some (slice records
                    (case values_of ''offset'' params of PInt off # _ \<Rightarrow> off | _ \<Rightarrow> 0)
                    (case values_of ''length'' params of PInt len # _ \<Rightarrow> len | _ \<Rightarrow> 5000)),
                 r_total = Some (int (length records))\<rparr>)"
  using assms
  by (simp add: request_def request_from.simps[of cfg _ 0] mock_server_def Let_def
        try_attempt_def handle_response_def)

lemma get_data_mock:
  assumes ok: "get_data_params cfg q = Inr params0"
    and r: "0 < max_retries cfg" and p: "0 < page_size cfg"
  shows "get_data cfg (mock_server records) (q\<lparr>q_length := Some (page_size cfg), q_offset := off\<rparr>)
       = Inr (Some \<lparr>r_data = Some (slice records off (page_size cfg)),
                     r_total = Some (int (length records))\<rparr>)"
proof -
  let ?q = "q\<lparr>q_length := Some (page_size cfg), q_offset := off\<rparr>"
  from get_data_params_page[OF ok] obtain params where ps: "get_data_params cfg ?q = Inr params"
    by blast
  have eq: "?q = (q\<lparr>q_offset := off\<rparr>)\<lparr>q_length := Some (page_size cfg)\<rparr>" by simp
  have nz: "page_size cfg \<noteq> 0" using p by simp
  have l: "values_of ''length'' params = [PInt (page_size cfg)]"
    using length_values[OF nz ps[unfolded eq]] by simp
  have o: "values_of ''offset'' params = (if off = 0 then [] else [PInt off])"
    using offset_values[OF ps] by simp
  show ?thesis
    unfolding get_data_def ps using request_mock_server[OF r, of records params] l o
    by (simp split: if_splits)
qed

lemma get_all_data_loop_mock:
  fixes records :: "'a list"
  assumes ok: "get_data_params cfg q = Inr params0"
    and r: "0 < max_retries cfg" and ps: "0 < page_size cfg"
    and cap: "mx = None \<or> (\<exists>m. mx = Some m \<and> int k < m)"
    and k: "k \<le> length records"
  shows "\<exists>calls'. get_all_data_loop cfg (mock_server records) q mx (int k) (int k)
            (take k records) calls = Some (expected records mx, calls', None)"
  using cap k
proof (induction "length records - k" arbitrary: k calls rule: less_induct)
  case less
  let ?n = "length records"
  let ?data = "slice records (int k) (page_size cfg)"
  let ?k' = "k + length ?data"
  have len: "length ?data = min (nat (page_size cfg)) (?n - k)" by (rule length_slice)
  have k'n: "?k' \<le> ?n" using less.prems(2) len by simp
  note g = get_data_mock[OF ok r ps, of records "int k"]
  note unfold = get_all_data_loop.simps[of cfg "mock_server records" q mx "int k" "int k"
                   "take k records" calls]
  show ?case
  proof (cases "?data = []")
    case True
    hence "k = ?n" using len ps less.prems(2) by (simp add: min_def split: if_splits)
    hence "expected records mx = take k records"
      using less.prems(1) by (auto simp: expected_def)
    thus ?thesis using True unfold g by (simp add: Let_def)
  next
    case False
    show ?thesis
    proof (cases "\<exists>m. mx = Some m \<and> m \<le> int ?k'")
      case True
      then obtain m where m: "mx = Some m" "m \<le> int ?k'" by blast
      hence km: "int k < m" using less.prems(1) by auto
      have e: "emit ?data (int k) mx = (take (nat (m - int k)) ?data, m, True)"
        using m km by (intro emit_capped) auto
      have "nat (m - int k) \<le> length ?data" using m(2) km by simp
      hence "take k records @ take (nat (m - int k)) ?data = take (k + nat (m - int k)) records"
        by (rule take_take_slice)
      moreover have "k + nat (m - int k) = nat m" using km by simp
      ultimately have "take k records @ take (nat (m - int k)) ?data = expected records mx"
        using m(1) by (simp add: expected_def)
      thus ?thesis using False unfold g e by (simp add: Let_def)
    next
      case nocap: False
      hence cap': "mx = None \<or> (\<exists>m. mx = Some m \<and> int ?k' < m)"
        using less.prems(1) by auto
      have e: "emit ?data (int k) mx = (?data, int k + int (length ?data), False)"
        using cap' by (intro emit_all) auto
      have y: "take k records @ ?data = take ?k' records" by (rule take_slice)
      show ?thesis
      proof (cases "int (length ?data) < page_size cfg")
        case True
        hence "?k' = ?n" using len k'n by (auto simp: min_def split: if_splits)
        hence "take ?k' records = expected records mx"
          using cap' by (auto simp: expected_def)
        thus ?thesis using False unfold g e y True by (simp add: Let_def)
      next
        case more: False
        have pos: "0 < length ?data" using False by simp
        have dec: "?n - ?k' < ?n - k" using pos k'n by arith
        have "\<exists>calls'. get_all_data_loop cfg (mock_server records) q mx (int ?k') (int ?k')
                 (take ?k' records) (calls @ [int k]) = Some (expected records mx, calls', None)"
          using dec k'n cap' by (intro less.hyps) auto
        moreover have "get_all_data_loop cfg (mock_server records) q mx (int k) (int k)
                 (take k records) calls
             = get_all_data_loop cfg (mock_server records) q mx (int ?k') (int ?k')
                 (take ?k' records) (calls @ [int k])"
          using False unfold g e y more by (simp add: Let_def)
        ultimately show ?thesis by simp
      qed
    qed
  qed
qed

lemma expected_min:
  "max_records = None \<or> (\<exists>m. max_records = Some m \<and> 0 < m) \<Longrightarrow>
   expected records max_records = take (record_cap records max_records) records"
  by (auto simp: expected_def record_cap_def min_def)

text \<open>
  Claim C1. For every finite list of records served by the mock source, every positive page
  size, and every cap that is absent or positive, the paginated fetch ends and yields exactly
  the first \<open>min(total, max_records)\<close> records of the source, in source order: the i-th
  record yielded is the i-th record of the source, so none is repeated and none is left out.
  This holds for \<^verbatim>\<open>paginate\<close> over a source that answers with raw dictionaries or with
  \<^verbatim>\<open>PaginatedResponse\<close> objects, and for \<^verbatim>\<open>get_all_data\<close> over the same source behind
  \<^verbatim>\<open>get_data\<close>, when the filters build (no sort entry lacks its column) and at least one
  attempt is allowed. With a page size of 2 and a cap of 5 over 7 records, 5 records are
  yielded and 3 pages are requested.
\<close>

theorem paginated_fetch_yields_prefix:
  assumes "0 < psize" and "0 < page_size cfg" and "0 < max_retries cfg"
    and "get_data_params cfg q = Inr params"
    and "max_records = None \<or> (\<exists>m. max_records = Some m \<and> 0 < m)"
  shows "(\<exists>calls. paginate (mock_fetch records) psize max_records
              = Some (take (record_cap records max_records) records, calls))
       \<and> (\<exists>calls. paginate (mock_fetch_paginated records) psize max_records
              = Some (take (record_cap records max_records) records, calls))
       \<and> (\<exists>calls. get_all_data cfg (mock_server records) q max_records
              = Some (take (record_cap records max_records) records, calls, None))
       \<and> length (take (record_cap records max_records) records)
            = record_cap records max_records
       \<and> paginate (mock_fetch seven) 2 (Some 5)
            = Some ([1, 2, 3, 4, 5], [(0, 2), (2, 2), (4, 2)])
       \<and> get_all_data ((default_config key)\<lparr>page_size := 2\<rparr>) (mock_server seven)
            no_filters (Some 5)
            = Some ([1, 2, 3, 4, 5], [0, 2, 4], None)"
proof -
  have cap: "max_records = None \<or> (\<exists>m. max_records = Some m \<and> int 0 < m)"
    using assms(5) by simp
  have 1: "\<exists>calls. paginate (mock_fetch records) psize max_records
              = Some (expected records max_records, calls)"
    using paginate_loop_mock[of "mock_fetch records" records psize max_records 0 "[]",
            OF page_of_mock_fetch assms(1) cap]
    by (simp add: paginate_def)
  have 2: "\<exists>calls. paginate (mock_fetch_paginated records) psize max_records
              = Some (expected records max_records, calls)"
    using paginate_loop_mock[of "mock_fetch_paginated records" records psize max_records 0 "[]",
            OF page_of_mock_fetch_paginated assms(1) cap]
    by (simp add: paginate_def)
  have 3: "\<exists>calls. get_all_data cfg (mock_server records) q max_records
              = Some (expected records max_records, calls, None)"
    using get_all_data_loop_mock[OF assms(4) assms(3) assms(2) cap, of records "[]"]
    by (simp add: get_all_data_def)
  have 5: "paginate (mock_fetch seven) 2 (Some 5)
            = Some ([1, 2, 3, 4, 5], [(0, 2), (2, 2), (4, 2)])"
    by (simp add: paginate_def paginate_loop.simps mock_fetch_def page_of_def slice_def seven_def
          Let_def)
  have 4: "length (take (record_cap records max_records) records)
            = record_cap records max_records"
    by (auto simp: record_cap_def split: option.splits)
  have 6: "get_all_data ((default_config key)\<lparr>page_size := 2\<rparr>) (mock_server seven)
            no_filters (Some 5)
            = Some ([1, 2, 3, 4, 5], [0, 2, 4], None)"
    by (simp add: get_all_data_def get_all_data_loop.simps get_data_def get_data_evals
          request_def request_from.simps try_attempt_def handle_response_def
          mock_server_def values_of_def slice_def seven_def Let_def)
  show ?thesis using 1 2 3 4 5 6 unfolding expected_min[OF assms(5)] by blast
qed

theorem paginated_fetch_yields_prefix_witness:
  "(0::int) < 2
   \<and> 0 < page_size ((default_config ''k'')\<lparr>page_size := 2\<rparr>)
   \<and> 0 < max_retries ((default_config ''k'')\<lparr>page_size := 2\<rparr>)
   \<and> get_data_params ((default_config ''k'')\<lparr>page_size := 2\<rparr>) no_filters
        = Inr [(''api_key'', PStr ''k'')]
   \<and> (0::int) < 5
   \<and> record_cap seven (Some 5) = 5
   \<and> paginate (mock_fetch seven) 2 (Some 5)
        = Some (take (record_cap seven (Some 5)) seven, [(0, 2), (2, 2), (4, 2)])
   \<and> (\<exists>calls. paginate (mock_fetch_paginated seven) 2 (Some 5)
        = Some (take (record_cap seven (Some 5)) seven, calls))
   \<and> get_all_data ((default_config ''k'')\<lparr>page_size := 2\<rparr>) (mock_server seven) no_filters
        (Some 5)
        = Some (take (record_cap seven (Some 5)) seven, [0, 2, 4], None)"
proof -
  let ?cfg = "(default_config ''k'')\<lparr>page_size := 2\<rparr>"
  have h1: "(0::int) < 2" by simp
  have h2: "0 < page_size ?cfg" by simp
  have h3: "0 < max_retries ?cfg" by (simp add: default_config_def)
  have h4: "get_data_params ?cfg no_filters = Inr [(''api_key'', PStr ''k'')]"
    by (simp add: get_data_evals)
  have h5: "Some (5::int) = None \<or> (\<exists>m. Some (5::int) = Some m \<and> 0 < m)" by simp
  have c: "record_cap seven (Some 5) = 5" by (simp add: record_cap_def seven_def)
  have t: "take 5 seven = [1, 2, 3, 4, 5]" by (simp add: seven_def)
  note inst = paginated_fetch_yields_prefix[OF h1 h2 h3 h4 h5, of seven "''k''"]
  show ?thesis using inst h1 h2 h3 h4 c t by simp
qed

section \<open>Properties of the record mapper\<close>

lemma float_or_zero_cases:
  "float_or_zero data key =
     (case data key of
        None \<Rightarrow> Inr (Finite 0)
      | Some x \<Rightarrow> if truthy x then py_float x else Inr (Finite 0))"
  by (simp add: float_or_zero_def get_default_def py_or_def py_float_def split: option.splits)

lemma float_or_none_cases:
  "float_or_none data key =
     (case data key of
        None \<Rightarrow> Inr None
      | Some x \<Rightarrow> if truthy x then map_sum id Some (py_float x) else Inr None)"
  by (auto simp: float_or_none_def get_or_none_def get_default_def getitem_def
        split: option.splits sum.splits)

lemma year_or_none_cases:
  "year_or_none data key =
     (case data key of
        None \<Rightarrow> Inr None
      | Some x \<Rightarrow>
          if truthy x then
            (case slice4 x of Inl e \<Rightarrow> Inl e | Inr y \<Rightarrow> map_sum id Some (py_int y))
          else Inr None)"
  by (auto simp: year_or_none_def get_or_none_def get_default_def getitem_def
        split: option.splits sum.splits)

lemma float_or_zero_ok: "floatable (data key) = (\<not> isl (float_or_zero data key))"
  by (auto simp: floatable_def float_or_zero_cases split: option.splits)

lemma float_or_none_ok: "floatable (data key) = (\<not> isl (float_or_none data key))"
  by (auto simp: floatable_def float_or_none_cases isl_map_sum split: option.splits)

lemma year_or_none_ok: "yearable (data key) = (\<not> isl (year_or_none data key))"
  by (auto simp: yearable_def year_or_none_cases isl_map_sum split: option.splits sum.splits)

lemma float_of_str_errors: "float_of_str s = Inl e \<Longrightarrow> e = ValueError"
  by (auto simp: float_of_str_def Let_def split: prod.splits option.splits if_splits)

lemma py_float_errors: "py_float x = Inl e \<Longrightarrow> e \<in> {ValueError, TypeError, OverflowError}"
  by (cases x) (auto simp: py_float_def dest: float_of_str_errors split: if_splits)

lemma int_of_str_errors: "int_of_str s = Inl e \<Longrightarrow> e = ValueError"
  by (auto simp: int_of_str_def split: prod.splits option.splits list.splits)

lemma py_int_errors: "py_int x = Inl e \<Longrightarrow> e \<in> {ValueError, TypeError, OverflowError}"
  by (cases x) (auto simp: py_int_def dest: int_of_str_errors split: pyfloat.splits)

lemma slice4_errors: "slice4 x = Inl e \<Longrightarrow> e = TypeError"
  by (cases x) (auto simp: slice4_def)

lemma float_or_zero_errors:
  "float_or_zero data key = Inl e \<Longrightarrow> e \<in> {ValueError, TypeError, OverflowError}"
  by (auto simp: float_or_zero_cases dest: py_float_errors split: option.splits if_splits)

lemma float_or_none_errors:
  "float_or_none data key = Inl e \<Longrightarrow> e \<in> {ValueError, TypeError, OverflowError}"
  by (cases "data key"; cases "py_float (the (data key))")
     (auto simp: float_or_none_cases dest: py_float_errors split: if_splits)

lemma year_or_none_errors:
  "year_or_none data key = Inl e \<Longrightarrow> e \<in> {ValueError, TypeError, OverflowError}"
  by (cases "data key"; cases "slice4 (the (data key))"; cases "py_int (projr (slice4 (the (data key))))")
     (auto simp: year_or_none_cases dest: py_int_errors slice4_errors split: if_splits)

lemma absent_or_null_zero:
  "absent_or_null (data key) \<Longrightarrow> float_or_zero data key = Inr (Finite 0)"
  by (auto simp: absent_or_null_def float_or_zero_cases)

lemma absent_or_null_none:
  "absent_or_null (data key) \<Longrightarrow> float_or_none data key = Inr None"
  by (auto simp: absent_or_null_def float_or_none_cases)

lemma get_default_absent: "data key = None \<Longrightarrow> get_default data key d = d"
  by (simp add: get_default_def)

lemma FuelTypeData_ok:
  assumes "floatable (data ''value'')"
  shows "\<exists>ft. FuelTypeData_from_dict data = Inr ft
         \<and> (absent_or_null (data ''value'') \<longrightarrow> ft_value ft = Finite 0)
         \<and> (data ''period'' = None \<longrightarrow> ft_period ft = JStr '''')
         \<and> (data ''respondent'' = None \<longrightarrow> ft_respondent ft = JStr '''')
         \<and> (data ''respondent-name'' = None \<longrightarrow> ft_respondent_name ft = JStr '''')
         \<and> (data ''fueltype'' = None \<longrightarrow> ft_fuel_type ft = JStr '''')
         \<and> (data ''type-name'' = None \<longrightarrow> ft_fuel_type_description ft = JStr '''')"
proof -
  from assms obtain v where v: "float_or_zero data ''value'' = Inr v"
    unfolding float_or_zero_ok by (cases "float_or_zero data ''value''") auto
  have "absent_or_null (data ''value'') \<longrightarrow> v = Finite 0"
    using absent_or_null_zero[of data "''value''"] v by auto
  thus ?thesis unfolding FuelTypeData_from_dict_def v
    by (simp add: get_default_absent)
qed

lemma FuelTypeData_raises:
  assumes "\<not> floatable (data ''value'')"
  shows "\<exists>e\<in>{ValueError, TypeError, OverflowError}. FuelTypeData_from_dict data = Inl e"
proof -
  from assms obtain e where e: "float_or_zero data ''value'' = Inl e"
    unfolding float_or_zero_ok by (cases "float_or_zero data ''value''") auto
  thus ?thesis using float_or_zero_errors[OF e] by (simp add: FuelTypeData_from_dict_def)
qed

lemma generator_ok_isl:
  "generator_ok data =
     (\<not> isl (float_or_zero data ''nameplate-capacity-mw'')
      \<and> \<not> isl (float_or_zero data ''net-summer-capacity-mw'')
      \<and> \<not> isl (float_or_zero data ''net-winter-capacity-mw'')
      \<and> \<not> isl (year_or_none data ''operating-year-month'')
      \<and> \<not> isl (float_or_none data ''latitude'')
      \<and> \<not> isl (float_or_none data ''longitude''))"
  unfolding generator_ok_def
  by (simp only: float_or_zero_ok[of data "''nameplate-capacity-mw''"]
        float_or_zero_ok[of data "''net-summer-capacity-mw''"]
        float_or_zero_ok[of data "''net-winter-capacity-mw''"]
        year_or_none_ok[of data "''operating-year-month''"]
        float_or_none_ok[of data "''latitude''"]
        float_or_none_ok[of data "''longitude''"])

lemma GeneratorCapacity_ok:
  assumes "generator_ok data"
  shows "\<exists>g. GeneratorCapacity_from_dict data = Inr g
         \<and> (absent_or_null (data ''nameplate-capacity-mw'') \<longrightarrow>
              gc_nameplate_capacity_mw g = Finite 0)
         \<and> (absent_or_null (data ''net-summer-capacity-mw'') \<longrightarrow>
              gc_net_summer_capacity_mw g = Finite 0)
         \<and> (absent_or_null (data ''net-winter-capacity-mw'') \<longrightarrow>
              gc_net_winter_capacity_mw g = Finite 0)
         \<and> (data ''period'' = None \<longrightarrow> gc_period g = JStr '''')
         \<and> (data ''stateid'' = None \<longrightarrow> gc_state g = JStr '''')
         \<and> (data ''stateName'' = None \<longrightarrow> gc_state_description g = JStr '''')
         \<and> (data ''sector'' = None \<longrightarrow> gc_sector g = JStr '''')
         \<and> (data ''sectorName'' = None \<longrightarrow> gc_sector_description g = JStr '''')
         \<and> (data ''entityid'' = None \<longrightarrow> gc_entity_id g = JStr '''')
         \<and> (data ''entityName'' = None \<longrightarrow> gc_entity_name g = JStr '''')
         \<and> (data ''plantid'' = None \<longrightarrow> gc_plant_id g = JStr '''')
         \<and> (data ''plantName'' = None \<longrightarrow> gc_plant_name g = JStr '''')
         \<and> (data ''generatorid'' = None \<longrightarrow> gc_generator_id g = JStr '''')
         \<and> (data ''technology'' = None \<longrightarrow> gc_technology g = JStr '''')
         \<and> (data ''energy_source_code'' = None \<longrightarrow> gc_energy_source g = JStr '''')
         \<and> (data ''energy_source_desc'' = None \<longrightarrow> gc_energy_source_description g = JStr '''')
         \<and> (data ''prime_mover_code'' = None \<longrightarrow> gc_prime_mover g = JStr '''')
         \<and> (data ''status'' = None \<longrightarrow> gc_status g = JStr '''')"
proof -
  have n: "\<not> isl (float_or_zero data ''nameplate-capacity-mw'')"
      "\<not> isl (float_or_zero data ''net-summer-capacity-mw'')"
      "\<not> isl (float_or_zero data ''net-winter-capacity-mw'')"
      "\<not> isl (year_or_none data ''operating-year-month'')"
      "\<not> isl (float_or_none data ''latitude'')"
      "\<not> isl (float_or_none data ''longitude'')"
    using assms unfolding generator_ok_isl by simp_all
  from n obtain a b c y la lo where
    v: "float_or_zero data ''nameplate-capacity-mw'' = Inr a"
       "float_or_zero data ''net-summer-capacity-mw'' = Inr b"
       "float_or_zero data ''net-winter-capacity-mw'' = Inr c"
       "year_or_none data ''operating-year-month'' = Inr y"
       "float_or_none data ''latitude'' = Inr la"
       "float_or_none data ''longitude'' = Inr lo"
    by (cases "float_or_zero data ''nameplate-capacity-mw''";
        cases "float_or_zero data ''net-summer-capacity-mw''";
        cases "float_or_zero data ''net-winter-capacity-mw''";
        cases "year_or_none data ''operating-year-month''";
        cases  "float_or_none data ''latitude''";
        cases "float_or_none data ''longitude''") auto
  have z: "absent_or_null (data ''nameplate-capacity-mw'') \<longrightarrow> a = Finite 0"
      "absent_or_null (data ''net-summer-capacity-mw'') \<longrightarrow> b = Finite 0"
      "absent_or_null (data ''net-winter-capacity-mw'') \<longrightarrow> c = Finite 0"
    using absent_or_null_zero[of data] v by auto
  show ?thesis unfolding GeneratorCapacity_from_dict_def using v z
    by (simp add: get_default_absent)
qed

lemma GeneratorCapacity_raises:
  assumes "\<not> generator_ok data"
  shows "\<exists>e\<in>{ValueError, TypeError, OverflowError}. GeneratorCapacity_from_dict data = Inl e"
proof -
  have "\<exists>e. GeneratorCapacity_from_dict data = Inl e
          \<and> (float_or_zero data ''nameplate-capacity-mw'' = Inl e
              \<or> float_or_zero data ''net-summer-capacity-mw'' = Inl e
              \<or> float_or_zero data ''net-winter-capacity-mw'' = Inl e
              \<or> year_or_none data ''operating-year-month'' = Inl e
              \<or> float_or_none data ''latitude'' = Inl e
              \<or> float_or_none data ''longitude'' = Inl e)"
    using assms unfolding generator_ok_isl GeneratorCapacity_from_dict_def
    by (cases "float_or_zero data ''nameplate-capacity-mw''";
        cases "float_or_zero data ''net-summer-capacity-mw''";
        cases "float_or_zero data ''net-winter-capacity-mw''";
        cases "year_or_none data ''operating-year-month''";
        cases  "float_or_none data ''latitude''";
        cases "float_or_none data ''longitude''") auto
  thus ?thesis
    using float_or_zero_errors float_or_none_errors year_or_none_errors by blast
qed

lemma GeneratorCapacity_geo:
  assumes "GeneratorCapacity_from_dict data = Inr g"
  shows "float_or_none data ''latitude'' = Inr (gc_latitude g)
       \<and> float_or_none data ''longitude'' = Inr (gc_longitude g)"
  using assms unfolding GeneratorCapacity_from_dict_def
  by (auto split: sum.splits)

lemma float_of_str_zero: "float_of_str ''0'' = Inr (Finite 0)"
  by (simp add: float_of_str_def strip_def sign_def is_space_def to_lower_def float_literal_def
        digitpart_def is_digit_def digit_val_def Let_def)

lemmas parse_evals =
  float_of_str_def int_of_str_def strip_def sign_def is_space_def to_lower_def
  float_literal_def exponent_def digitpart_def is_digit_def digit_val_def Let_def

lemmas mapper_evals =
  float_or_zero_def float_or_none_def year_or_none_def get_default_def get_or_none_def
  getitem_def py_or_def py_float_def py_int_def slice4_def

text \<open>
  Claim C2, as the code has it. A mapper returns an entity exactly when every value that it
  converts is acceptable: missing, falsy (\<^verbatim>\<open>null\<close>, zero, empty), or something that \<^verbatim>\<open>float\<close>
  (for the year, \<^verbatim>\<open>int\<close> of the first four items) accepts. Then a string field whose key is
  missing is the empty string, and a numeric field (\<^verbatim>\<open>value\<close>, the capacities) whose key is
  missing or \<^verbatim>\<open>null\<close> is 0.0. A value that cannot be parsed is not replaced by a default:
  the mapper raises \<^verbatim>\<open>ValueError\<close>, \<^verbatim>\<open>TypeError\<close> or \<^verbatim>\<open>OverflowError\<close>.
\<close>

theorem from_dict_degrades:
  "(floatable (data ''value'') \<longrightarrow>
      (\<exists>ft. FuelTypeData_from_dict data = Inr ft
         \<and> (absent_or_null (data ''value'') \<longrightarrow> ft_value ft = Finite 0)
         \<and> (data ''period'' = None \<longrightarrow> ft_period ft = JStr '''')
         \<and> (data ''respondent'' = None \<longrightarrow> ft_respondent ft = JStr '''')
         \<and> (data ''respondent-name'' = None \<longrightarrow> ft_respondent_name ft = JStr '''')
         \<and> (data ''fueltype'' = None \<longrightarrow> ft_fuel_type ft = JStr '''')
         \<and> (data ''type-name'' = None \<longrightarrow> ft_fuel_type_description ft = JStr '''')))
   \<and> (\<not> floatable (data ''value'') \<longrightarrow>
        (\<exists>e\<in>{ValueError, TypeError, OverflowError}. FuelTypeData_from_dict data = Inl e))
   \<and> (generator_ok data \<longrightarrow>
        (\<exists>g. GeneratorCapacity_from_dict data = Inr g
         \<and> (absent_or_null (data ''nameplate-capacity-mw'') \<longrightarrow>
              gc_nameplate_capacity_mw g = Finite 0)
         \<and> (absent_or_null (data ''net-summer-capacity-mw'') \<longrightarrow>
              gc_net_summer_capacity_mw g = Finite 0)
         \<and> (absent_or_null (data ''net-winter-capacity-mw'') \<longrightarrow>
              gc_net_winter_capacity_mw g = Finite 0)
         \<and> (data ''period'' = None \<longrightarrow> gc_period g = JStr '''')
         \<and> (data ''stateid'' = None \<longrightarrow> gc_state g = JStr '''')
         \<and> (data ''stateName'' = None \<longrightarrow> gc_state_description g = JStr '''')
         \<and> (data ''sector'' = None \<longrightarrow> gc_sector g = JStr '''')
         \<and> (data ''sectorName'' = None \<longrightarrow> gc_sector_description g = JStr '''')
         \<and> (data ''entityid'' = None \<longrightarrow> gc_entity_id g = JStr '''')
         \<and> (data ''entityName'' = None \<longrightarrow> gc_entity_name g = JStr '''')
         \<and> (data ''plantid'' = None \<longrightarrow> gc_plant_id g = JStr '''')
         \<and> (data ''plantName'' = None \<longrightarrow> gc_plant_name g = JStr '''')
         \<and> (data ''generatorid'' = None \<longrightarrow> gc_generator_id g = JStr '''')
         \<and> (data ''technology'' = None \<longrightarrow> gc_technology g = JStr '''')
         \<and> (data ''energy_source_code'' = None \<longrightarrow> gc_energy_source g = JStr '''')
         \<and> (data ''energy_source_desc'' = None \<longrightarrow> gc_energy_source_description g = JStr '''')
         \<and> (data ''prime_mover_code'' = None \<longrightarrow> gc_prime_mover g = JStr '''')
         \<and> (data ''status'' = None \<longrightarrow> gc_status g = JStr '''')))
   \<and> (\<not> generator_ok data \<longrightarrow>
        (\<exists>e\<in>{ValueError, TypeError, OverflowError}. GeneratorCapacity_from_dict data = Inl e))"
proof (intro conjI impI)
  assume "floatable (data ''value'')"
  thus "\<exists>ft. FuelTypeData_from_dict data = Inr ft
         \<and> (absent_or_null (data ''value'') \<longrightarrow> ft_value ft = Finite 0)
         \<and> (data ''period'' = None \<longrightarrow> ft_period ft = JStr '''')
         \<and> (data ''respondent'' = None \<longrightarrow> ft_respondent ft = JStr '''')
         \<and> (data ''respondent-name'' = None \<longrightarrow> ft_respondent_name ft = JStr '''')
         \<and> (data ''fueltype'' = None \<longrightarrow> ft_fuel_type ft = JStr '''')
         \<and> (data ''type-name'' = None \<longrightarrow> ft_fuel_type_description ft = JStr '''')"
    by (rule FuelTypeData_ok)
next
  assume "\<not> floatable (data ''value'')"
  thus "\<exists>e\<in>{ValueError, TypeError, OverflowError}. FuelTypeData_from_dict data = Inl e"
    by (rule FuelTypeData_raises)
next
  assume "generator_ok data"
  thus "\<exists>g. GeneratorCapacity_from_dict data = Inr g
         \<and> (absent_or_null (data ''nameplate-capacity-mw'') \<longrightarrow>
              gc_nameplate_capacity_mw g = Finite 0)
         \<and> (absent_or_null (data ''net-summer-capacity-mw'') \<longrightarrow>
              gc_net_summer_capacity_mw g = Finite 0)
         \<and> (absent_or_null (data ''net-winter-capacity-mw'') \<longrightarrow>
              gc_net_winter_capacity_mw g = Finite 0)
         \<and> (data ''period'' = None \<longrightarrow> gc_period g = JStr '''')
         \<and> (data ''stateid'' = None \<longrightarrow> gc_state g = JStr '''')
         \<and> (data ''stateName'' = None \<longrightarrow> gc_state_description g = JStr '''')
         \<and> (data ''sector'' = None \<longrightarrow> gc_sector g = JStr '''')
         \<and> (data ''sectorName'' = None \<longrightarrow> gc_sector_description g = JStr '''')
         \<and> (data ''entityid'' = None \<longrightarrow> gc_entity_id g = JStr '''')
         \<and> (data ''entityName'' = None \<longrightarrow> gc_entity_name g = JStr '''')
         \<and> (data ''plantid'' = None \<longrightarrow> gc_plant_id g = JStr '''')
         \<and> (data ''plantName'' = None \<longrightarrow> gc_plant_name g = JStr '''')
         \<and> (data ''generatorid'' = None \<longrightarrow> gc_generator_id g = JStr '''')
         \<and> (data ''technology'' = None \<longrightarrow> gc_technology g = JStr '''')
         \<and> (data ''energy_source_code'' = None \<longrightarrow> gc_energy_source g = JStr '''')
         \<and> (data ''energy_source_desc'' = None \<longrightarrow> gc_energy_source_description g = JStr '''')
         \<and> (data ''prime_mover_code'' = None \<longrightarrow> gc_prime_mover g = JStr '''')
         \<and> (data ''status'' = None \<longrightarrow> gc_status g = JStr '''')"
    by (rule GeneratorCapacity_ok)
next
  assume "\<not> generator_ok data"
  thus "\<exists>e\<in>{ValueError, TypeError, OverflowError}. GeneratorCapacity_from_dict data = Inl e"
    by (rule GeneratorCapacity_raises)
qed

lemma sparse_generation_ok:
  "floatable (sparse_generation ''value'')"
  "absent_or_null (sparse_generation ''value'')"
  "sparse_generation ''respondent'' = None"
  by (simp_all add: sparse_generation_def floatable_def absent_or_null_def)

lemma sparse_generator_ok:
  "generator_ok sparse_generator"
  "absent_or_null (sparse_generator ''nameplate-capacity-mw'')"
  "sparse_generator ''stateid'' = None"
  by (simp_all add: sparse_generator_def generator_ok_def floatable_def yearable_def
        absent_or_null_def mapper_evals parse_evals)

theorem from_dict_degrades_witness:
  "floatable (sparse_generation ''value'') \<and> absent_or_null (sparse_generation ''value'')
   \<and> sparse_generation ''respondent'' = None
   \<and> generator_ok sparse_generator
   \<and> absent_or_null (sparse_generator ''nameplate-capacity-mw'')
   \<and> sparse_generator ''stateid'' = None
   \<and> \<not> floatable ((sparse_generation(''value'' \<mapsto> JStr ''N/A'')) ''value'')
   \<and> \<not> generator_ok (sparse_generator(''latitude'' \<mapsto> JStr ''N/A''))
   \<and> (\<exists>ft. FuelTypeData_from_dict sparse_generation = Inr ft
          \<and> ft_value ft = Finite 0 \<and> ft_respondent ft = JStr '''')
   \<and> (\<exists>g. GeneratorCapacity_from_dict sparse_generator = Inr g
          \<and> gc_nameplate_capacity_mw g = Finite 0 \<and> gc_state g = JStr '''')
   \<and> (\<exists>e\<in>{ValueError, TypeError, OverflowError}.
          FuelTypeData_from_dict (sparse_generation(''value'' \<mapsto> JStr ''N/A'')) = Inl e)
   \<and> (\<exists>e\<in>{ValueError, TypeError, OverflowError}.
          GeneratorCapacity_from_dict (sparse_generator(''latitude'' \<mapsto> JStr ''N/A'')) = Inl e)"
proof -
  have a: "\<not> floatable ((sparse_generation(''value'' \<mapsto> JStr ''N/A'')) ''value'')"
    by (simp add: floatable_def mapper_evals parse_evals)
  have b: "\<not> generator_ok (sparse_generator(''latitude'' \<mapsto> JStr ''N/A''))"
    by (simp add: sparse_generator_def generator_ok_def floatable_def yearable_def
          mapper_evals parse_evals)
  note ft_ok = from_dict_degrades[of sparse_generation, THEN conjunct1, rule_format]
  note ft_raises =
    from_dict_degrades[of "sparse_generation(''value'' \<mapsto> JStr ''N/A'')",
      THEN conjunct2, THEN conjunct1, rule_format]
  note gc_ok =
    from_dict_degrades[of sparse_generator, THEN conjunct2, THEN conjunct2, THEN conjunct1,
      rule_format]
  note gc_raises =
    from_dict_degrades[of "sparse_generator(''latitude'' \<mapsto> JStr ''N/A'')",
      THEN conjunct2, THEN conjunct2, THEN conjunct2, rule_format]
  from ft_ok[OF sparse_generation_ok(1)] obtain ft where
    ft: "FuelTypeData_from_dict sparse_generation = Inr ft"
        "absent_or_null (sparse_generation ''value'') \<longrightarrow> ft_value ft = Finite 0"
        "sparse_generation ''respondent'' = None \<longrightarrow> ft_respondent ft = JStr ''''"
    by (elim exE conjE) (rule that)
  have 1: "\<exists>ft. FuelTypeData_from_dict sparse_generation = Inr ft
          \<and> ft_value ft = Finite 0 \<and> ft_respondent ft = JStr ''''"
    using ft sparse_generation_ok(2,3) by (intro exI[of _ ft]) simp
  from gc_ok[OF sparse_generator_ok(1)] obtain g where
    g: "GeneratorCapacity_from_dict sparse_generator = Inr g"
       "absent_or_null (sparse_generator ''nameplate-capacity-mw'') \<longrightarrow>
          gc_nameplate_capacity_mw g = Finite 0"
       "sparse_generator ''stateid'' = None \<longrightarrow> gc_state g = JStr ''''"
    by (elim exE conjE) (rule that)
  have 2: "\<exists>g. GeneratorCapacity_from_dict sparse_generator = Inr g
          \<and> gc_nameplate_capacity_mw g = Finite 0 \<and> gc_state g = JStr ''''"
    using g sparse_generator_ok(2,3) by (intro exI[of _ g]) simp
  have 3: "\<exists>e\<in>{ValueError, TypeError, OverflowError}.
          FuelTypeData_from_dict (sparse_generation(''value'' \<mapsto> JStr ''N/A'')) = Inl e"
    by (rule ft_raises[OF a])
  have 4: "\<exists>e\<in>{ValueError, TypeError, OverflowError}.
          GeneratorCapacity_from_dict (sparse_generator(''latitude'' \<mapsto> JStr ''N/A'')) = Inl e"
    by (rule gc_raises[OF b])
  show ?thesis by (intro conjI sparse_generation_ok sparse_generator_ok a b 1 2 3 4)
qed

text \<open>
  Claim C2 as stated fails: a numeric field that holds an unparseable value is not
  defaulted to 0.0, the mapper raises.
\<close>

theorem from_dict_unparseable_counterexample:
  "FuelTypeData_from_dict [''value'' \<mapsto> JStr ''N/A''] = Inl ValueError
   \<and> GeneratorCapacity_from_dict [''nameplate-capacity-mw'' \<mapsto> JStr ''N/A''] = Inl ValueError"
  by (simp add: FuelTypeData_from_dict_def GeneratorCapacity_from_dict_def mapper_evals
        parse_evals)

lemma generator_ok_returns:
  assumes "generator_ok data"
  shows "\<exists>g. GeneratorCapacity_from_dict data = Inr g"
  using GeneratorCapacity_ok[OF assms] by (elim exE conjE) (rule exI)

lemma geo_of_float_or_none:
  assumes "generator_ok data"
  shows "latitude_of data = float_or_none data ''latitude''"
    and "longitude_of data = float_or_none data ''longitude''"
proof -
  from generator_ok_returns[OF assms] obtain g where
    g: "GeneratorCapacity_from_dict data = Inr g" ..
  show "latitude_of data = float_or_none data ''latitude''"
    using GeneratorCapacity_geo[OF g] g by (simp add: latitude_of_def)
  show "longitude_of data = float_or_none data ''longitude''"
    using GeneratorCapacity_geo[OF g] g by (simp add: longitude_of_def)
qed

text \<open>
  Claim C3, as the code has it by design. When the mapper returns, the latitude and the
  longitude are \<^verbatim>\<open>None\<close> when the raw key is missing or holds \<^verbatim>\<open>null\<close>; a present value that
  is truthy is mapped to \<^verbatim>\<open>float\<close> of it, so a number other than zero is preserved as that
  coordinate and the string \<^verbatim>\<open>"0"\<close> is the coordinate 0.
\<close>

theorem geo_fields_optional:
  assumes "generator_ok data"
  shows "(absent_or_null (data ''latitude'') \<longrightarrow> latitude_of data = Inr None)
       \<and> (absent_or_null (data ''longitude'') \<longrightarrow> longitude_of data = Inr None)
       \<and> (data ''latitude'' = Some x \<and> truthy x \<longrightarrow>
            latitude_of data = map_sum id Some (py_float x) \<and> \<not> isl (py_float x))
       \<and> (data ''longitude'' = Some y \<and> truthy y \<longrightarrow>
            longitude_of data = map_sum id Some (py_float y) \<and> \<not> isl (py_float y))
       \<and> (data ''latitude'' = Some (JFloat (Finite r)) \<and> r \<noteq> 0 \<longrightarrow>
            latitude_of data = Inr (Some (Finite r)))
       \<and> (data ''longitude'' = Some (JFloat (Finite r')) \<and> r' \<noteq> 0 \<longrightarrow>
            longitude_of data = Inr (Some (Finite r')))
       \<and> (data ''latitude'' = Some (JStr ''0'') \<longrightarrow> latitude_of data = Inr (Some (Finite 0)))
       \<and> (data ''longitude'' = Some (JStr ''0'') \<longrightarrow> longitude_of data = Inr (Some (Finite 0)))"
proof -
  note la = geo_of_float_or_none(1)[OF assms]
  note lo = geo_of_float_or_none(2)[OF assms]
  have fl: "floatable (data ''latitude'')" "floatable (data ''longitude'')"
    using assms by (simp_all add: generator_ok_def)
  have 1: "absent_or_null (data ''latitude'') \<longrightarrow> latitude_of data = Inr None"
    using absent_or_null_none[of data "''latitude''"] by (simp add: la)
  have 2: "absent_or_null (data ''longitude'') \<longrightarrow> longitude_of data = Inr None"
    using absent_or_null_none[of data "''longitude''"] by (simp add: lo)
  have 3: "data ''latitude'' = Some x \<and> truthy x \<longrightarrow>
            latitude_of data = map_sum id Some (py_float x) \<and> \<not> isl (py_float x)"
    using fl(1) by (auto simp: la float_or_none_cases floatable_def)
  have 4: "data ''longitude'' = Some y \<and> truthy y \<longrightarrow>
            longitude_of data = map_sum id Some (py_float y) \<and> \<not> isl (py_float y)"
    using fl(2) by (auto simp: lo float_or_none_cases floatable_def)
  have 5: "data ''latitude'' = Some (JFloat (Finite r)) \<and> r \<noteq> 0 \<longrightarrow>
            latitude_of data = Inr (Some (Finite r))"
    by (auto simp: la float_or_none_cases py_float_def)
  have 6: "data ''longitude'' = Some (JFloat (Finite r')) \<and> r' \<noteq> 0 \<longrightarrow>
            longitude_of data = Inr (Some (Finite r'))"
    by (auto simp: lo float_or_none_cases py_float_def)
  have 7: "data ''latitude'' = Some (JStr ''0'') \<longrightarrow> latitude_of data = Inr (Some (Finite 0))"
    by (auto simp: la float_or_none_cases py_float_def float_of_str_zero)
  have 8: "data ''longitude'' = Some (JStr ''0'') \<longrightarrow> longitude_of data = Inr (Some (Finite 0))"
    by (auto simp: lo float_or_none_cases py_float_def float_of_str_zero)
  show ?thesis by (intro conjI 1 2 3 4 5 6 7 8)
qed

theorem geo_fields_optional_witness:
  "generator_ok sparse_generator
   \<and> generator_ok (sparse_generator(''latitude'' \<mapsto> JNull))
   \<and> sparse_generator ''latitude'' = Some (JStr ''0'')
   \<and> sparse_generator ''longitude'' = Some (JFloat (Finite (- 95))) \<and> (- 95 :: real) \<noteq> 0
   \<and> truthy (JFloat (Finite (- 95)))
   \<and> absent_or_null ((sparse_generator(''latitude'' \<mapsto> JNull)) ''latitude'')
   \<and> latitude_of sparse_generator = Inr (Some (Finite 0))
   \<and> longitude_of sparse_generator = Inr (Some (Finite (- 95)))
   \<and> longitude_of sparse_generator = map_sum id Some (py_float (JFloat (Finite (- 95))))
   \<and> latitude_of (sparse_generator(''latitude'' \<mapsto> JNull)) = Inr None"
proof -
  have ok': "generator_ok (sparse_generator(''latitude'' \<mapsto> JNull))"
    by (simp add: sparse_generator_def generator_ok_def floatable_def yearable_def
          mapper_evals parse_evals)
  have la: "sparse_generator ''latitude'' = Some (JStr ''0'')"
    and lo: "sparse_generator ''longitude'' = Some (JFloat (Finite (- 95)))"
    by (simp_all add: sparse_generator_def)
  have nz: "(- 95 :: real) \<noteq> 0" by simp
  have tr: "truthy (JFloat (Finite (- 95)))" by simp
  have an: "absent_or_null ((sparse_generator(''latitude'' \<mapsto> JNull)) ''latitude'')"
    by (simp add: absent_or_null_def)
  note t1 = geo_fields_optional[OF sparse_generator_ok(1),
              of "JStr ''0''" "JFloat (Finite (- 95))" 0 "- 95"]
  note t2 = geo_fields_optional[OF ok', of JNull JNull 0 0]
  have 1: "latitude_of sparse_generator = Inr (Some (Finite 0))"
    using t1 la by blast
  have 2: "longitude_of sparse_generator = Inr (Some (Finite (- 95)))"
    using t1 lo nz by blast
  have 3: "longitude_of sparse_generator = map_sum id Some (py_float (JFloat (Finite (- 95))))"
    using t1 lo tr by blast
  have 4: "latitude_of (sparse_generator(''latitude'' \<mapsto> JNull)) = Inr None"
    using t2 an by blast
  show ?thesis by (intro conjI sparse_generator_ok(1) ok' la lo nz tr an 1 2 3 4)
qed

text \<open>
  Claim C3 as stated fails: a key that is present with \<^verbatim>\<open>null\<close> maps to \<^verbatim>\<open>None\<close>, so the
  field is absent for more than the missing keys; and a present coordinate that is the
  number 0 maps to \<^verbatim>\<open>None\<close> as well, not to the coordinate 0.
\<close>

theorem geo_fields_null_counterexample:
  "[''latitude'' \<mapsto> JNull] ''latitude'' \<noteq> None
   \<and> latitude_of [''latitude'' \<mapsto> JNull] = Inr None
   \<and> [''latitude'' \<mapsto> JFloat (Finite 0)] ''latitude'' \<noteq> None
   \<and> latitude_of [''latitude'' \<mapsto> JFloat (Finite 0)] = Inr None
   \<and> latitude_of [''latitude'' \<mapsto> JFloat (Finite 0)] \<noteq> Inr (Some (Finite 0))"
  by (simp add: latitude_of_def GeneratorCapacity_from_dict_def mapper_evals)

end
